theory Spec2Isabelle
  imports Complex_Main
begin

section \<open>Data model\<close>

text \<open>
  The simulation inside the component \<^verbatim>\<open>App\<close>, with the entity interfaces of \<^verbatim>\<open>types\<close>
  and the tables of \<^verbatim>\<open>constants\<close> that it imports. A JavaScript \<^verbatim>\<open>number\<close> that holds a coordinate, a speed,
  an angle, a radius or an aircraft's health is a \<^typ>\<open>real\<close>: rounding of IEEE doubles is
  not modelled. A \<^verbatim>\<open>number\<close> that the program only ever sets to an integer and changes by
  integer steps (identifiers, ammunition, the health of cities and towers, score, level,
  millisecond time stamps) is an \<^typ>\<open>int\<close>; the two formation counters, which
  start at 0 and are only incremented, reset or reduced modulo 3, are \<^typ>\<open>nat\<close>.
  Field names carry a prefix for their interface, since record fields share one name
  space.
\<close>

datatype GameStatus = START | PLAYING | WON | LOST | LEVEL_UP

record Point =
  px :: real
  py :: real

record Rocket =
  r_id :: string
  r_start :: Point
  r_current :: Point
  r_target :: Point
  r_speed :: real
  r_angle :: real

record Missile =
  m_id :: string
  m_start :: Point
  m_current :: Point
  m_target :: Point
  m_speed :: real
  m_angle :: real
  m_towerId :: int

record Explosion =
  e_id :: string
  e_x :: real
  e_y :: real
  e_radius :: real
  e_maxRadius :: real
  e_growing :: bool

record City =
  c_id :: int
  c_x :: real
  c_y :: real
  c_width :: real
  c_height :: real
  c_health :: int
  c_maxHealth :: int
  c_destroyed :: bool

record Tower =
  t_id :: int
  t_x :: real
  t_y :: real
  t_targetX :: real
  t_targetY :: real
  t_ammo :: int
  t_maxAmmo :: int
  t_health :: int
  t_maxHealth :: int
  t_destroyed :: bool

record Meteor =
  mt_id :: string
  mt_x :: real
  mt_y :: real
  mt_size :: real
  mt_speedX :: real
  mt_speedY :: real
  mt_angle :: real

record Plane =
  p_id :: string
  p_x :: real
  p_y :: real
  p_targetY :: real
  p_health :: real
  p_maxHealth :: real
  p_speed :: real
  p_direction :: real
  p_destroyed :: bool
  p_lastFired :: int

text \<open>
  The state of the component: the React state \<^verbatim>\<open>status\<close>, \<^verbatim>\<open>score\<close>, \<^verbatim>\<open>level\<close> and the
  contents of the refs. A \<^verbatim>\<open>setStatus\<close>, \<^verbatim>\<open>setScore\<close> or \<^verbatim>\<open>setLevel\<close> is an assignment to the
  field: no handler reads a state variable after setting it, and of several calls in one
  handler the last one decides the next render.
\<close>

record game =
  status :: GameStatus
  score :: int
  level :: int
  rockets :: "Rocket list"
  missiles :: "Missile list"
  explosions :: "Explosion list"
  cities :: "City list"
  towers :: "Tower list"
  meteors :: "Meteor list"
  planes :: "Plane list"
  formationTimer :: nat
  currentFormation :: nat
  scoreRef :: int

section \<open>Configuration constants\<close>

record TowerPos =
  tp_id :: int
  tp_x :: real
  tp_y :: real
  tp_maxAmmo :: int

record CityPos =
  cp_id :: int
  cp_x :: real
  cp_y :: real

definition GAME_WIDTH :: real where "GAME_WIDTH = 800"
definition GAME_HEIGHT :: real where "GAME_HEIGHT = 600"

definition TOWER_POSITIONS :: "TowerPos list" where
  "TOWER_POSITIONS =
    [\<lparr>tp_id = 0, tp_x = 40, tp_y = 560, tp_maxAmmo = 300\<rparr>,
     \<lparr>tp_id = 1, tp_x = 220, tp_y = 560, tp_maxAmmo = 300\<rparr>,
     \<lparr>tp_id = 2, tp_x = 400, tp_y = 560, tp_maxAmmo = 300\<rparr>,
     \<lparr>tp_id = 3, tp_x = 580, tp_y = 560, tp_maxAmmo = 300\<rparr>,
     \<lparr>tp_id = 4, tp_x = 760, tp_y = 560, tp_maxAmmo = 300\<rparr>]"

definition CITY_POSITIONS :: "CityPos list" where
  "CITY_POSITIONS =
    [\<lparr>cp_id = 0, cp_x = 110, cp_y = 570\<rparr>,
     \<lparr>cp_id = 1, cp_x = 160, cp_y = 570\<rparr>,
     \<lparr>cp_id = 2, cp_x = 300, cp_y = 570\<rparr>,
     \<lparr>cp_id = 3, cp_x = 500, cp_y = 570\<rparr>,
     \<lparr>cp_id = 4, cp_x = 650, cp_y = 570\<rparr>,
     \<lparr>cp_id = 5, cp_x = 700, cp_y = 570\<rparr>]"

definition EXPLOSION_MAX_RADIUS :: real where "EXPLOSION_MAX_RADIUS = 70"
definition EXPLOSION_SPEED :: real where "EXPLOSION_SPEED = 3 / 2"
definition MISSILE_SPEED :: real where "MISSILE_SPEED = 8"
definition ROCKET_SPEED_MIN :: real where "ROCKET_SPEED_MIN = 1 / 2"
definition ROCKET_SPEED_MAX :: real where "ROCKET_SPEED_MAX = 3 / 2"
definition SPAWN_RATE :: real where "SPAWN_RATE = 15 / 1000"
definition SCORE_PER_ROCKET :: int where "SCORE_PER_ROCKET = 20"

section \<open>Library functions of the host language\<close>

datatype error = TypeError

text \<open>
  \<^verbatim>\<open>Math.atan2(y, x)\<close> on real arguments (signed zeros are not modelled): the angle of
  the point \<open>(x, y)\<close> in \<open>(-\<pi>, \<pi>]\<close>, and 0 at the origin.
\<close>

definition atan2 :: "real \<Rightarrow> real \<Rightarrow> real" where
  "atan2 y x =
    (if 0 < x then arctan (y / x)
     else if x < 0 \<and> 0 \<le> y then arctan (y / x) + pi
     else if x < 0 then arctan (y / x) - pi
     else if 0 < y then pi / 2
     else if y < 0 then - (pi / 2)
     else 0)"

text \<open>
  \<^verbatim>\<open>arr[i]\<close> for an integer index: \<^verbatim>\<open>undefined\<close> (here \<open>None\<close>) out of range.
\<close>

definition at_index :: "'a list \<Rightarrow> int \<Rightarrow> 'a option" where
  "at_index xs i = (if 0 \<le> i \<and> i < int (length xs) then Some (xs ! nat i) else None)"

text \<open>
  \<^verbatim>\<open>arr.splice(i, 1)\<close> for a natural index: removes the element at \<open>i\<close>, and nothing
  when \<open>i\<close> is out of range.
\<close>

definition splice1 :: "nat \<Rightarrow> 'a list \<Rightarrow> 'a list" where
  "splice1 i xs = take i xs @ drop (Suc i) xs"

text \<open>
  \<^verbatim>\<open>arr.forEach(callback)\<close> where the callback may change the array it iterates. The
  length is read once, before the first call; index \<open>k\<close> runs from 0 up to that length;
  the callback is called on index \<open>k\<close> only if the array, as it is then, still has an
  element there. \<open>forEach n k len body s\<close> performs the \<open>n\<close> remaining iterations from
  index \<open>k\<close>; \<open>len s\<close> is the present length of the array in state \<open>s\<close> and \<open>body k\<close>
  the callback on the element at index \<open>k\<close>.
\<close>

fun forEach :: "nat \<Rightarrow> nat \<Rightarrow> ('s \<Rightarrow> nat) \<Rightarrow> (nat \<Rightarrow> 's \<Rightarrow> 's) \<Rightarrow> 's \<Rightarrow> 's" where
  "forEach 0 k len body s = s"
| "forEach (Suc n) k len body s =
     forEach n (Suc k) len body (if k < len s then body k s else s)"

section \<open>Geometry\<close>

definition distToSegment :: "Point \<Rightarrow> Point \<Rightarrow> Point \<Rightarrow> real" where
  "distToSegment p v w =
    (let l2 = (px v - px w)\<^sup>2 + (py v - py w)\<^sup>2 in
     if l2 = 0 then sqrt ((px p - px v)\<^sup>2 + (py p - py v)\<^sup>2)
     else
       let t0 = ((px p - px v) * (px w - px v) + (py p - py v) * (py w - py v)) / l2;
           t = max 0 (min 1 t0)
       in sqrt ((px p - (px v + t * (px w - px v)))\<^sup>2 + (py p - (py v + t * (py w - py v)))\<^sup>2))"

section \<open>Level initialisation and lifecycle commands\<close>

definition initCity :: "CityPos \<Rightarrow> City" where
  "initCity p =
    \<lparr>c_id = cp_id p, c_x = cp_x p, c_y = cp_y p, c_width = 40, c_height = 20,
     c_health = 2, c_maxHealth = 2, c_destroyed = False\<rparr>"

definition initTower :: "bool \<Rightarrow> Tower list \<Rightarrow> TowerPos \<Rightarrow> Tower" where
  "initTower preserveAmmo currentTowers p =
    (let existingTower = find (\<lambda>t. t_id t = tp_id p) currentTowers in
     \<lparr>t_id = tp_id p, t_x = tp_x p, t_y = tp_y p,
      t_targetX = tp_x p, t_targetY = tp_y p,
      t_ammo = (case existingTower of
                  Some t \<Rightarrow> if preserveAmmo then t_ammo t else tp_maxAmmo p
                | None \<Rightarrow> tp_maxAmmo p),
      t_maxAmmo = tp_maxAmmo p,
      t_health = 5, t_maxHealth = 5, t_destroyed = False\<rparr>)"

definition initGame :: "bool \<Rightarrow> bool \<Rightarrow> game \<Rightarrow> game" where
  "initGame resetLevel preserveAmmo g =
    g\<lparr>rockets := [], missiles := [], explosions := [],
      cities := map initCity CITY_POSITIONS,
      towers := map (initTower preserveAmmo (towers g)) TOWER_POSITIONS,
      meteors := [], planes := [],
      formationTimer := 0, currentFormation := 0,
      score := 0, scoreRef := 0,
      level := (if resetLevel then 1 else level g)\<rparr>"

text \<open>\<^verbatim>\<open>startGame\<close> is bound to both the start button and the restart button.\<close>

definition startGame :: "game \<Rightarrow> game" where
  "startGame g = (initGame True False g)\<lparr>status := PLAYING\<rparr>"

definition nextLevel :: "game \<Rightarrow> game" where
  "nextLevel g = (initGame False True (g\<lparr>level := level g + 1\<rparr>))\<lparr>status := PLAYING\<rparr>"

section \<open>The fire command\<close>

text \<open>
  The scan for the closest tower with ammunition. \<open>best\<close> is the tower found so far, as
  its index in the store together with \<^verbatim>\<open>minDist\<close>; \<open>None\<close> stands for the initial
  \<^verbatim>\<open>bestTower = null\<close>, \<^verbatim>\<open>minDist = Infinity\<close>, below which every distance lies.
\<close>

fun closestTower :: "real \<Rightarrow> Tower list \<Rightarrow> nat \<Rightarrow> (nat \<times> real) option \<Rightarrow> (nat \<times> real) option" where
  "closestTower x [] i best = best"
| "closestTower x (tower # ts) i best =
     closestTower x ts (Suc i)
       (if \<not> t_destroyed tower \<and> 0 < t_ammo tower then
          (let dist = \<bar>t_x tower - x\<bar> in
           case best of
             None \<Rightarrow> Some (i, dist)
           | Some (j, minDist) \<Rightarrow> if dist < minDist then Some (i, dist) else best)
        else best)"

text \<open>
  The part of \<^verbatim>\<open>handleCanvasClick\<close> after the conversion of the pointer position: the
  fire command at the world point \<open>(x, y)\<close>. \<open>newId\<close> is the identifier drawn with
  \<^verbatim>\<open>Math.random\<close> for the missile.
\<close>

definition fire :: "real \<Rightarrow> real \<Rightarrow> string \<Rightarrow> game \<Rightarrow> game" where
  "fire x y newId g =
    (case closestTower x (towers g) 0 None of
       None \<Rightarrow> g
     | Some (i, minDist) \<Rightarrow>
         (let tower = (towers g ! i)\<lparr>t_ammo := t_ammo (towers g ! i) - 1\<rparr>;
              angle = atan2 (y - t_y tower) (x - t_x tower)
          in g\<lparr>towers := (towers g)[i := tower],
               missiles := missiles g @
                 [\<lparr>m_id = newId,
                   m_start = \<lparr>px = t_x tower, py = t_y tower\<rparr>,
                   m_current = \<lparr>px = t_x tower, py = t_y tower\<rparr>,
                   m_target = \<lparr>px = x, py = y\<rparr>,
                   m_speed = MISSILE_SPEED, m_angle = angle,
                   m_towerId = t_id tower\<rparr>],
               score := scoreRef g\<rparr>))"

text \<open>
  The canvas as the handler sees it: its logical size and its bounding rectangle on the
  page. \<open>None\<close> is \<^verbatim>\<open>canvasRef.current === null\<close>. A rectangle of width or height 0,
  where the division of the source yields an infinity or NaN, is outside this model.
\<close>

record Canvas =
  cv_width :: real
  cv_height :: real
  rect_left :: real
  rect_top :: real
  rect_width :: real
  rect_height :: real

definition handleCanvasClick :: "Canvas option \<Rightarrow> real \<Rightarrow> real \<Rightarrow> string \<Rightarrow> game \<Rightarrow> game" where
  "handleCanvasClick canvas clientX clientY newId g =
    (if status g \<noteq> PLAYING then g
     else case canvas of
       None \<Rightarrow> g
     | Some cv \<Rightarrow>
         (let scaleX = cv_width cv / rect_width cv;
              scaleY = cv_height cv / rect_height cv;
              x = (clientX - rect_left cv) * scaleX;
              y = (clientY - rect_top cv) * scaleY
          in fire x y newId g))"

section \<open>The tick\<close>

text \<open>
  What one call of \<^verbatim>\<open>update\<close> reads from outside the state: the clock and the results of
  \<^verbatim>\<open>Math.random\<close>. Every call site of \<^verbatim>\<open>Math.random\<close> has a field of its own; a call site
  inside a loop is indexed by the loop's index. The values are arbitrary: nothing below
  assumes a distribution. An identifier is the string the source makes of the drawn number.
\<close>

record TickEnv =
  now :: int
  rocketBlastId :: "nat \<Rightarrow> string"
  missileBlastId :: "nat \<Rightarrow> string"
  meteorRoll :: real
  meteorSize :: real
  meteorSide :: real
  meteorStartY :: real
  meteorTargetY :: real
  meteorSpeed :: real
  meteorId :: string
  planeRoll :: real
  planeFormation :: real
  planeDirection :: real
  planeBaseY :: real
  planeSpeed :: real
  planeId :: "nat \<Rightarrow> string"
  rocketRoll :: real
  rocketPlane :: real
  rocketTarget :: real
  rocketJitter :: real
  rocketSpeed :: real
  rocketId :: string

definition newExplosion :: "string \<Rightarrow> real \<Rightarrow> real \<Rightarrow> Explosion" where
  "newExplosion i x y =
    \<lparr>e_id = i, e_x = x, e_y = y, e_radius = 0,
     e_maxRadius = EXPLOSION_MAX_RADIUS, e_growing = True\<rparr>"

subsection \<open>Rockets\<close>

definition damageCity :: "Point \<Rightarrow> City \<Rightarrow> City" where
  "damageCity impact city =
    (if \<not> c_destroyed city \<and> \<bar>c_x city - px impact\<bar> < 30 \<and> \<bar>c_y city - py impact\<bar> < 20 then
       (let city1 = city\<lparr>c_health := c_health city - 1\<rparr> in
        if c_health city1 \<le> 0 then city1\<lparr>c_destroyed := True\<rparr> else city1)
     else city)"

definition damageTower :: "Point \<Rightarrow> Tower \<Rightarrow> Tower" where
  "damageTower impact tower =
    (if \<not> t_destroyed tower \<and> \<bar>t_x tower - px impact\<bar> < 30 \<and> \<bar>t_y tower - py impact\<bar> < 20 then
       (let tower1 = tower\<lparr>t_health := t_health tower - 1\<rparr> in
        if t_health tower1 \<le> 0 then tower1\<lparr>t_destroyed := True\<rparr> else tower1)
     else tower)"

text \<open>
  The callback of the loop over the rockets, on the rocket at index \<open>k\<close>. The inner loops
  over cities and towers change single elements only and are written as \<open>map\<close>.
\<close>

definition moveRocket :: "Rocket \<Rightarrow> Rocket" where
  "moveRocket rocket =
    rocket\<lparr>r_current :=
      \<lparr>px = px (r_current rocket) + cos (r_angle rocket) * r_speed rocket,
       py = py (r_current rocket) + sin (r_angle rocket) * r_speed rocket\<rparr>\<rparr>"

definition rocketStep :: "TickEnv \<Rightarrow> nat \<Rightarrow> game \<Rightarrow> game" where
  "rocketStep env k g =
    (let rocket = moveRocket (rockets g ! k);
         g1 = g\<lparr>rockets := (rockets g)[k := rocket]\<rparr>
     in if py (r_target rocket) \<le> py (r_current rocket) then
          g1\<lparr>explosions := explosions g1 @
                [newExplosion (rocketBlastId env k) (px (r_current rocket)) (py (r_current rocket))],
             cities := map (damageCity (r_current rocket)) (cities g1),
             towers := map (damageTower (r_current rocket)) (towers g1),
             rockets := splice1 k (rockets g1)\<rparr>
        else g1)"

definition updateRockets :: "TickEnv \<Rightarrow> game \<Rightarrow> game" where
  "updateRockets env g =
    forEach (length (rockets g)) 0 (\<lambda>s. length (rockets s)) (rocketStep env) g"

subsection \<open>Missiles\<close>

definition addScore :: "int \<Rightarrow> game \<Rightarrow> game" where
  "addScore n g = g\<lparr>scoreRef := scoreRef g + n, score := scoreRef g + n\<rparr>"

definition laserRocket :: "Missile \<Rightarrow> nat \<Rightarrow> game \<Rightarrow> game" where
  "laserRocket missile rIndex g =
    (let rocket = rockets g ! rIndex;
         dist = distToSegment (r_current rocket) (m_start missile) (m_current missile)
     in if dist < 8 then addScore SCORE_PER_ROCKET (g\<lparr>rockets := splice1 rIndex (rockets g)\<rparr>)
        else g)"

definition laserPlane :: "Missile \<Rightarrow> nat \<Rightarrow> game \<Rightarrow> game" where
  "laserPlane missile i g =
    (let plane = planes g ! i in
     if \<not> p_destroyed plane then
       (let dist = distToSegment \<lparr>px = p_x plane, py = p_y plane\<rparr> (m_start missile) (m_current missile)
        in if dist < 12 then
             (let plane1 = plane\<lparr>p_health := p_health plane - 3 / 100\<rparr> in
              if p_health plane1 \<le> 0 then
                addScore 10 (g\<lparr>planes := (planes g)[i := plane1\<lparr>p_destroyed := True\<rparr>]\<rparr>)
              else g\<lparr>planes := (planes g)[i := plane1]\<rparr>)
           else g)
     else g)"

definition moveMissile :: "Missile \<Rightarrow> Missile" where
  "moveMissile missile =
    missile\<lparr>m_current :=
      \<lparr>px = px (m_current missile) + cos (m_angle missile) * m_speed missile,
       py = py (m_current missile) + sin (m_angle missile) * m_speed missile\<rparr>\<rparr>"

definition missileStep :: "TickEnv \<Rightarrow> nat \<Rightarrow> game \<Rightarrow> game" where
  "missileStep env k g =
    (let missile = moveMissile (missiles g ! k);
         g1 = g\<lparr>missiles := (missiles g)[k := missile]\<rparr>;
         g2 = forEach (length (rockets g1)) 0 (\<lambda>s. length (rockets s)) (laserRocket missile) g1;
         g3 = forEach (length (planes g2)) 0 (\<lambda>s. length (planes s)) (laserPlane missile) g2;
         distToTarget = sqrt ((px (m_target missile) - px (m_current missile))\<^sup>2
                            + (py (m_target missile) - py (m_current missile))\<^sup>2)
     in if distToTarget < m_speed missile then
          g3\<lparr>explosions := explosions g3 @
                [newExplosion (missileBlastId env k) (px (m_target missile)) (py (m_target missile))],
             missiles := splice1 k (missiles g3)\<rparr>
        else g3)"

definition updateMissiles :: "TickEnv \<Rightarrow> game \<Rightarrow> game" where
  "updateMissiles env g =
    forEach (length (missiles g)) 0 (\<lambda>s. length (missiles s)) (missileStep env) g"

subsection \<open>Explosions\<close>

text \<open>
  The first statement of the callback of the loop over the explosions: the new value of
  the explosion, and whether it is spliced out of the store.
\<close>

definition growExplosion :: "Explosion \<Rightarrow> Explosion \<times> bool" where
  "growExplosion expl =
    (if e_growing expl then
       (let expl1 = expl\<lparr>e_radius := e_radius expl + EXPLOSION_SPEED\<rparr> in
        (if e_maxRadius expl1 \<le> e_radius expl1 then expl1\<lparr>e_growing := False\<rparr> else expl1, False))
     else
       (let expl1 = expl\<lparr>e_radius := e_radius expl - EXPLOSION_SPEED\<rparr> in
        (expl1, e_radius expl1 \<le> 0)))"

definition blastRocket :: "Explosion \<Rightarrow> nat \<Rightarrow> game \<Rightarrow> game" where
  "blastRocket expl rIndex g =
    (let rocket = rockets g ! rIndex;
         dist = sqrt ((px (r_current rocket) - e_x expl)\<^sup>2 + (py (r_current rocket) - e_y expl)\<^sup>2)
     in if dist < e_radius expl then
          addScore SCORE_PER_ROCKET (g\<lparr>rockets := splice1 rIndex (rockets g)\<rparr>)
        else g)"

definition blastPlane :: "Explosion \<Rightarrow> nat \<Rightarrow> game \<Rightarrow> game" where
  "blastPlane expl i g =
    (let plane = planes g ! i in
     if \<not> p_destroyed plane then
       (let dist = sqrt ((p_x plane - e_x expl)\<^sup>2 + (p_y plane - e_y expl)\<^sup>2)
        in if dist < e_radius expl then
             (let plane1 = plane\<lparr>p_health := p_health plane - 1 / 20\<rparr> in
              if p_health plane1 \<le> 0 then
                addScore 10 (g\<lparr>planes := (planes g)[i := plane1\<lparr>p_destroyed := True\<rparr>]\<rparr>)
              else g\<lparr>planes := (planes g)[i := plane1]\<rparr>)
           else g)
     else g)"

definition explosionStep :: "nat \<Rightarrow> game \<Rightarrow> game" where
  "explosionStep k g =
    (case growExplosion (explosions g ! k) of
       (expl, remove) \<Rightarrow>
         (let g1 = g\<lparr>explosions :=
                      (if remove then splice1 k ((explosions g)[k := expl])
                       else (explosions g)[k := expl])\<rparr>;
              g2 = forEach (length (rockets g1)) 0 (\<lambda>s. length (rockets s)) (blastRocket expl) g1
          in forEach (length (planes g2)) 0 (\<lambda>s. length (planes s)) (blastPlane expl) g2))"

definition updateExplosions :: "game \<Rightarrow> game" where
  "updateExplosions g =
    forEach (length (explosions g)) 0 (\<lambda>s. length (explosions s)) explosionStep g"

subsection \<open>Win, loss and level-up\<close>

definition checkProgress :: "game \<Rightarrow> game" where
  "checkProgress g =
    (let levelTarget = level g * 500;
         g1 = (if levelTarget \<le> scoreRef g then
                 (if 10 \<le> level g then g\<lparr>status := WON\<rparr> else g\<lparr>status := LEVEL_UP\<rparr>)
               else g)
     in if list_all t_destroyed (towers g1) then g1\<lparr>status := LOST\<rparr> else g1)"

subsection \<open>Tower formation\<close>

text \<open>
  The callback of the loop over the towers in \<^verbatim>\<open>updatePlayerFormation\<close>, on the tower at
  index \<open>i\<close>. Reading a field of \<^verbatim>\<open>TOWER_POSITIONS[i]\<close> beyond the table throws.
\<close>

definition formationTower :: "nat \<Rightarrow> nat \<Rightarrow> Tower \<Rightarrow> error + Tower" where
  "formationTower formation i tower =
    (if t_destroyed tower then Inr tower
     else case at_index TOWER_POSITIONS (int i) of
       None \<Rightarrow> Inl TypeError
     | Some basePos \<Rightarrow>
         (let tx = tp_x basePos;
              ty = (if formation = 1 then
                      (let mid = \<lfloor>real (length TOWER_POSITIONS) / 2\<rfloor>;
                           dist = \<bar>int i - mid\<bar>
                       in tp_y basePos - 30 - real_of_int dist * 40)
                    else if formation = 2 then
                      (let mid = (real (length TOWER_POSITIONS) - 1) / 2;
                           offset = (real i - mid)\<^sup>2 * 8
                       in tp_y basePos - 80 + offset)
                    else tp_y basePos - 20);
              tower1 = tower\<lparr>t_targetX := tx, t_targetY := ty\<rparr>
          in Inr (tower1\<lparr>t_x := t_x tower1 + (t_targetX tower1 - t_x tower1) * (3 / 100),
                          t_y := t_y tower1 + (t_targetY tower1 - t_y tower1) * (3 / 100)\<rparr>)))"

fun formationTowers :: "nat \<Rightarrow> nat \<Rightarrow> Tower list \<Rightarrow> error + Tower list" where
  "formationTowers formation i [] = Inr []"
| "formationTowers formation i (tower # ts) =
     (case formationTower formation i tower of
        Inl e \<Rightarrow> Inl e
      | Inr tower1 \<Rightarrow>
          (case formationTowers formation (Suc i) ts of
             Inl e \<Rightarrow> Inl e
           | Inr ts1 \<Rightarrow> Inr (tower1 # ts1)))"

definition updatePlayerFormation :: "game \<Rightarrow> error + game" where
  "updatePlayerFormation g =
    (let g1 = g\<lparr>formationTimer := formationTimer g + 1\<rparr>;
         g2 = (if 400 < formationTimer g1 then
                 g1\<lparr>formationTimer := 0, currentFormation := (currentFormation g1 + 1) mod 3\<rparr>
               else g1)
     in case formationTowers (currentFormation g2) 0 (towers g2) of
          Inl e \<Rightarrow> Inl e
        | Inr ts \<Rightarrow> Inr (g2\<lparr>towers := ts\<rparr>))"

subsection \<open>Meteors and planes\<close>

definition spawnMeteor :: "TickEnv \<Rightarrow> game \<Rightarrow> game" where
  "spawnMeteor env g =
    (if meteorRoll env < 5 / 1000 then
       (let size = 20 + meteorSize env * 40;
            startX = (if meteorSide env < 1 / 2 then - size else GAME_WIDTH + size);
            startY = meteorStartY env * (GAME_HEIGHT / 2);
            targetX = (if startX < 0 then GAME_WIDTH + size else - size);
            targetY = startY + (meteorTargetY env * 200 - 100);
            angle = atan2 (targetY - startY) (targetX - startX);
            speed = 1 / 2 + meteorSpeed env * (3 / 2)
        in g\<lparr>meteors := meteors g @
               [\<lparr>mt_id = meteorId env, mt_x = startX, mt_y = startY, mt_size = size,
                 mt_speedX = cos angle * speed, mt_speedY = sin angle * speed,
                 mt_angle = angle\<rparr>]\<rparr>)
     else g)"

definition meteorStep :: "nat \<Rightarrow> game \<Rightarrow> game" where
  "meteorStep k g =
    (let m0 = meteors g ! k;
         m = m0\<lparr>mt_x := mt_x m0 + mt_speedX m0, mt_y := mt_y m0 + mt_speedY m0\<rparr>;
         g1 = g\<lparr>meteors := (meteors g)[k := m]\<rparr>
     in if mt_x m < - 200 \<or> GAME_WIDTH + 200 < mt_x m \<or> mt_y m < - 200 \<or> GAME_HEIGHT + 200 < mt_y m
        then g1\<lparr>meteors := splice1 k (meteors g1)\<rparr>
        else g1)"

definition updateMeteors :: "TickEnv \<Rightarrow> game \<Rightarrow> game" where
  "updateMeteors env g =
    (let g1 = spawnMeteor env g in
     forEach (length (meteors g1)) 0 (\<lambda>s. length (meteors s)) meteorStep g1)"

definition planeStep :: "nat \<Rightarrow> game \<Rightarrow> game" where
  "planeStep k g =
    (let p0 = planes g ! k in
     if \<not> p_destroyed p0 then
       (let p1 = p0\<lparr>p_x := p_x p0 + p_direction p0 * p_speed p0\<rparr>;
            p = p1\<lparr>p_y := p_targetY p1 + sin (p_x p1 * (2 / 100)) * 20\<rparr>;
            g1 = g\<lparr>planes := (planes g)[k := p]\<rparr>
        in if p_x p < - 100 \<or> GAME_WIDTH + 100 < p_x p
           then g1\<lparr>planes := splice1 k (planes g1)\<rparr>
           else g1)
     else
       (let p = p0\<lparr>p_y := p_y p0 + 3, p_x := p_x p0 + p_direction p0 * (1 / 2)\<rparr>;
            g1 = g\<lparr>planes := (planes g)[k := p]\<rparr>
        in if GAME_HEIGHT < p_y p
           then g1\<lparr>planes := splice1 k (planes g1)\<rparr>
           else g1))"

definition updatePlanes :: "game \<Rightarrow> game" where
  "updatePlanes g = forEach (length (planes g)) 0 (\<lambda>s. length (planes s)) planeStep g"

subsection \<open>Spawning\<close>

definition newPlane :: "string \<Rightarrow> real \<Rightarrow> real \<Rightarrow> real \<Rightarrow> real \<Rightarrow> real \<Rightarrow> Plane" where
  "newPlane i x y planeHealth speed direction =
    \<lparr>p_id = i, p_x = x, p_y = y, p_targetY = y, p_health = planeHealth,
     p_maxHealth = planeHealth, p_speed = speed, p_direction = direction,
     p_destroyed = False, p_lastFired = 0\<rparr>"

definition spawnPlanes :: "TickEnv \<Rightarrow> game \<Rightarrow> game" where
  "spawnPlanes env g =
    (let maxPlanes = 5 + level g div 2 in
     if maxPlanes \<le> int (length (filter (\<lambda>p. \<not> p_destroyed p) (planes g))) then g
     else
       (let levelSpawnRate = (2 / 100) * (1 + (real_of_int (level g) - 1) * (1 / 10)) in
        if levelSpawnRate < planeRoll env then g
        else
          (let formationType = \<lfloor>planeFormation env * 3\<rfloor>;
               direction = (if planeDirection env < 1 / 2 then 1 else - 1) :: real;
               startX = (if direction = 1 then - 50 else GAME_WIDTH + 50);
               baseTargetY = 50 + planeBaseY env * 150;
               speed = (1 + planeSpeed env * (3 / 2)) * (1 + (real_of_int (level g) - 1) * (1 / 10));
               planeHealth = 7 + (real_of_int (level g) - 1)
           in if formationType = 0 then
                g\<lparr>planes := planes g @
                     [newPlane (planeId env 0) startX baseTargetY planeHealth speed direction]\<rparr>
              else if formationType = 1 then
                g\<lparr>planes := planes g @
                     [newPlane (planeId env 0) startX baseTargetY planeHealth speed direction,
                      newPlane (planeId env 1) (startX + - direction * 40) (baseTargetY + - 40)
                        planeHealth speed direction,
                      newPlane (planeId env 2) (startX + - direction * 40) (baseTargetY + 40)
                        planeHealth speed direction]\<rparr>
              else
                g\<lparr>planes := planes g @
                     [newPlane (planeId env 0) (startX + - direction * 0 * 60) baseTargetY
                        planeHealth speed direction,
                      newPlane (planeId env 1) (startX + - direction * 1 * 60) baseTargetY
                        planeHealth speed direction,
                      newPlane (planeId env 2) (startX + - direction * 2 * 60) baseTargetY
                        planeHealth speed direction]\<rparr>)))"

text \<open>
  \<^verbatim>\<open>spawnRocket\<close>. The chosen plane is an element of the store (the filtered array shares
  its elements), so it is named by its index there. An index beyond the filtered array,
  which no result of \<^verbatim>\<open>Math.random\<close> in \<open>[0, 1)\<close> gives, reads \<^verbatim>\<open>undefined\<close> and throws at
  the first field access.
\<close>

definition spawnRocket :: "TickEnv \<Rightarrow> game \<Rightarrow> error + game" where
  "spawnRocket env g =
    (let levelSpawnRate = SPAWN_RATE * (1 + (real_of_int (level g) - 1) * (2 / 10)) in
     if levelSpawnRate < rocketRoll env then Inr g
     else
       (let activePlanes = filter (\<lambda>i. \<not> p_destroyed (planes g ! i)) [0..<length (planes g)] in
        if length activePlanes = 0 then Inr g
        else case at_index activePlanes \<lfloor>rocketPlane env * real (length activePlanes)\<rfloor> of
          None \<Rightarrow> Inl TypeError
        | Some i \<Rightarrow>
            (let plane = planes g ! i;
                 fireCooldown = max 300 (1000 - (level g - 1) * 100)
             in if now env - p_lastFired plane < fireCooldown then Inr g
                else
                  (let g1 = g\<lparr>planes := (planes g)[i := plane\<lparr>p_lastFired := now env\<rparr>]\<rparr>;
                       targets = map (\<lambda>c. \<lparr>px = c_x c, py = c_y c\<rparr>)
                                   (filter (\<lambda>c. \<not> c_destroyed c) (cities g1))
                               @ map (\<lambda>t. \<lparr>px = t_x t, py = t_y t\<rparr>)
                                   (filter (\<lambda>t. \<not> t_destroyed t) (towers g1))
                   in if length targets = 0 then Inr g1
                      else case at_index targets \<lfloor>rocketTarget env * real (length targets)\<rfloor> of
                        None \<Rightarrow> Inl TypeError
                      | Some target \<Rightarrow>
                          (let targetX = px target + (rocketJitter env * 20 - 10);
                               targetY = py target;
                               angle = atan2 (targetY - p_y plane) (targetX - p_x plane);
                               speedMultiplier = 1 + (real_of_int (level g) - 1) * (15 / 100);
                               speed = (ROCKET_SPEED_MIN
                                         + rocketSpeed env * (ROCKET_SPEED_MAX - ROCKET_SPEED_MIN))
                                       * speedMultiplier
                           in Inr (g1\<lparr>rockets := rockets g1 @
                                 [\<lparr>r_id = rocketId env,
                                   r_start = \<lparr>px = p_x plane, py = p_y plane\<rparr>,
                                   r_current = \<lparr>px = p_x plane, py = p_y plane\<rparr>,
                                   r_target = \<lparr>px = targetX, py = targetY\<rparr>,
                                   r_speed = speed, r_angle = angle\<rparr>]\<rparr>))))))"

subsection \<open>One tick, and the frame loop\<close>

definition update :: "TickEnv \<Rightarrow> game \<Rightarrow> error + game" where
  "update env g =
    (let g1 = updateRockets env g;
         g2 = updateMissiles env g1;
         g3 = updateExplosions g2;
         g4 = checkProgress g3
     in case updatePlayerFormation g4 of
          Inl e \<Rightarrow> Inl e
        | Inr g5 \<Rightarrow> spawnRocket env (spawnPlanes env (updatePlanes (updateMeteors env g5))))"

text \<open>\<^verbatim>\<open>gameLoop\<close> without the drawing: a tick runs only in state \<open>PLAYING\<close>.\<close>

definition gameLoop :: "TickEnv \<Rightarrow> game \<Rightarrow> error + game" where
  "gameLoop env g = (if status g = PLAYING then update env g else Inr g)"

section \<open>Runs of the component\<close>

text \<open>The state of the component when it is mounted: the initial values of its hooks.\<close>

definition initial :: game where
  "initial =
    \<lparr>status = START, score = 0, level = 1, rockets = [], missiles = [], explosions = [],
     cities = [], towers = [], meteors = [], planes = [],
     formationTimer = 0, currentFormation = 0, scoreRef = 0\<rparr>"

text \<open>
  What happens to the component within a level: a frame of the animation loop, or a
  pointer event on the canvas.
\<close>

datatype event =
  Tick TickEnv
| Click "Canvas option" real real string

fun step :: "event \<Rightarrow> game \<Rightarrow> error + game" where
  "step (Tick env) g = gameLoop env g"
| "step (Click canvas clientX clientY newId) g = Inr (handleCanvasClick canvas clientX clientY newId g)"

fun run :: "event list \<Rightarrow> game \<Rightarrow> error + game" where
  "run [] g = Inr g"
| "run (ev # evs) g = (case step ev g of Inl e \<Rightarrow> Inl e | Inr g1 \<Rightarrow> run evs g1)"

text \<open>A result of \<^verbatim>\<open>Math.random\<close> lies in \<open>[0, 1)\<close>.\<close>

definition isRandom :: "real \<Rightarrow> bool" where
  "isRandom r = (0 \<le> r \<and> r < 1)"

definition wellFormedEnv :: "TickEnv \<Rightarrow> bool" where
  "wellFormedEnv env =
    (isRandom (meteorRoll env) \<and> isRandom (meteorSize env) \<and> isRandom (meteorSide env) \<and>
     isRandom (meteorStartY env) \<and> isRandom (meteorTargetY env) \<and> isRandom (meteorSpeed env) \<and>
     isRandom (planeRoll env) \<and> isRandom (planeFormation env) \<and> isRandom (planeDirection env) \<and>
     isRandom (planeBaseY env) \<and> isRandom (planeSpeed env) \<and>
     isRandom (rocketRoll env) \<and> isRandom (rocketPlane env) \<and> isRandom (rocketTarget env) \<and>
     isRandom (rocketJitter env) \<and> isRandom (rocketSpeed env))"

fun wellFormedEvent :: "event \<Rightarrow> bool" where
  "wellFormedEvent (Tick env) = wellFormedEnv env"
| "wellFormedEvent (Click canvas clientX clientY newId) = True"

text \<open>A tower that the fire command may choose.\<close>

definition eligible :: "Tower \<Rightarrow> bool" where
  "eligible tower = (\<not> t_destroyed tower \<and> 0 < t_ammo tower)"

section \<open>Reference states\<close>

text \<open>
  Scenario A: level 1, one tower at \<open>(40, 560)\<close> with 300 rounds.
\<close>

definition towerA :: Tower where
  "towerA =
    \<lparr>t_id = 0, t_x = 40, t_y = 560, t_targetX = 40, t_targetY = 560,
     t_ammo = 300, t_maxAmmo = 300, t_health = 5, t_maxHealth = 5, t_destroyed = False\<rparr>"

definition scenarioA :: game where
  "scenarioA = initial\<lparr>status := PLAYING, towers := [towerA]\<rparr>"

text \<open>A canvas shown at its logical size, with its corner at the origin of the page.\<close>

definition plainCanvas :: Canvas where
  "plainCanvas =
    \<lparr>cv_width = 800, cv_height = 600, rect_left = 0, rect_top = 0,
     rect_width = 800, rect_height = 600\<rparr>"

text \<open>
  \<open>n\<close> successive ticks as the formation controller sees them: \<^verbatim>\<open>update\<close> calls
  \<^verbatim>\<open>updatePlayerFormation\<close> once per tick.
\<close>

fun formationTicks :: "nat \<Rightarrow> game \<Rightarrow> error + game" where
  "formationTicks 0 g = Inr g"
| "formationTicks (Suc n) g =
     (case updatePlayerFormation g of Inl e \<Rightarrow> Inl e | Inr g1 \<Rightarrow> formationTicks n g1)"

text \<open>
  A tick environment in which nothing is spawned: every draw of \<^verbatim>\<open>Math.random\<close> gives
  \<open>1/2\<close>, above each spawn probability.
\<close>

definition quietEnv :: TickEnv where
  "quietEnv =
    \<lparr>now = 0, rocketBlastId = (\<lambda>k. ''blast''), missileBlastId = (\<lambda>k. ''burst''),
     meteorRoll = 1 / 2, meteorSize = 1 / 2, meteorSide = 1 / 2, meteorStartY = 1 / 2,
     meteorTargetY = 1 / 2, meteorSpeed = 1 / 2, meteorId = ''meteor'',
     planeRoll = 1 / 2, planeFormation = 1 / 2, planeDirection = 1 / 2, planeBaseY = 1 / 2,
     planeSpeed = 1 / 2, planeId = (\<lambda>i. ''plane''),
     rocketRoll = 1 / 2, rocketPlane = 1 / 2, rocketTarget = 1 / 2, rocketJitter = 1 / 2,
     rocketSpeed = 1 / 2, rocketId = ''rocket''\<rparr>"

text \<open>
  A rocket falling straight down at one unit per tick, and a missile rising straight up
  from \<open>(x, 540)\<close>, now at height \<open>y\<close>, aimed at \<open>(x, 100)\<close>.
\<close>

definition fallingRocket :: "string \<Rightarrow> real \<Rightarrow> real \<Rightarrow> real \<Rightarrow> Rocket" where
  "fallingRocket i x y targetY =
    \<lparr>r_id = i, r_start = \<lparr>px = x, py = 100\<rparr>, r_current = \<lparr>px = x, py = y\<rparr>,
     r_target = \<lparr>px = x, py = targetY\<rparr>, r_speed = 1, r_angle = pi / 2\<rparr>"

definition risingMissile :: "string \<Rightarrow> real \<Rightarrow> real \<Rightarrow> Missile" where
  "risingMissile i x y =
    \<lparr>m_id = i, m_start = \<lparr>px = x, py = 540\<rparr>, m_current = \<lparr>px = x, py = y\<rparr>,
     m_target = \<lparr>px = x, py = 100\<rparr>, m_speed = MISSILE_SPEED, m_angle = - (pi / 2),
     m_towerId = 1\<rparr>"

text \<open>
  Level 1 with score 480 and two towers, the second one a wreck. A rocket is about to
  land on the first tower, and a second rocket stands in the beam of a missile.
  \<open>lastStand h\<close> gives the first tower health \<open>h\<close>.
\<close>

definition wreck :: Tower where
  "wreck =
    \<lparr>t_id = 1, t_x = 220, t_y = 540, t_targetX = 220, t_targetY = 540,
     t_ammo = 120, t_maxAmmo = 300, t_health = 0, t_maxHealth = 5, t_destroyed = True\<rparr>"

definition lastStand :: "int \<Rightarrow> game" where
  "lastStand h =
    initial\<lparr>status := PLAYING, score := 480, scoreRef := 480,
      towers := [towerA\<lparr>t_health := h\<rparr>, wreck],
      rockets := [fallingRocket ''r1'' 40 (1119 / 2) 560, fallingRocket ''r2'' 220 450 560],
      missiles := [risingMissile ''m1'' 220 400]\<rparr>"

text \<open>
  How a tower's ammunition may differ between two moments of a level: same tower, no
  more rounds than before, and not below 0 unless it was so before.
\<close>

definition ammoSpent :: "Tower \<Rightarrow> Tower \<Rightarrow> bool" where
  "ammoSpent before after =
    (t_id after = t_id before \<and> t_ammo after \<le> t_ammo before
     \<and> (0 \<le> t_ammo before \<longrightarrow> 0 \<le> t_ammo after))"

text \<open>Scenario A continued: the shot of scenario A, then one quiet tick.\<close>

definition shotThenTick :: "event list" where
  "shotThenTick = [Click (Some plainCanvas) 40 300 ''m1'', Tick quietEnv]"

definition shotA :: "real \<Rightarrow> Missile" where
  "shotA y =
    \<lparr>m_id = ''m1'', m_start = \<lparr>px = 40, py = 560\<rparr>, m_current = \<lparr>px = 40, py = y\<rparr>,
     m_target = \<lparr>px = 40, py = 300\<rparr>, m_speed = 8, m_angle = - (pi / 2), m_towerId = 0\<rparr>"


text \<open>
  Two rockets over two cities, the first of which has health \<open>h\<close>. The first rocket
  lands in the coming tick; the second one is at height \<open>y\<close>.
\<close>

definition cityAt :: "int \<Rightarrow> real \<Rightarrow> City" where
  "cityAt i x = initCity \<lparr>cp_id = i, cp_x = x, cp_y = 570\<rparr>"


text \<open>Two rockets on the path of one missile.\<close>

definition twinBeam :: game where
  "twinBeam =
    initial\<lparr>status := PLAYING, towers := [towerA],
      rockets := [fallingRocket ''r1'' 220 450 560, fallingRocket ''r2'' 220 460 560],
      missiles := [risingMissile ''m1'' 220 400]\<rparr>"

text \<open>
  A blast in its last tick, and a rocket that lands in the coming tick and so adds a new
  blast behind it in the store.
\<close>

definition dyingBlast :: Explosion where
  "dyingBlast =
    \<lparr>e_id = ''old'', e_x = 600, e_y = 300, e_radius = 3 / 2,
     e_maxRadius = EXPLOSION_MAX_RADIUS, e_growing = False\<rparr>"

definition blastHandover :: game where
  "blastHandover =
    initial\<lparr>status := PLAYING, towers := [towerA], cities := [cityAt 0 110],
      explosions := [dyingBlast],
      rockets := [fallingRocket ''r1'' 110 (1139 / 2) 570]\<rparr>"

text \<open>
  The life of one blast as the loop over the explosions sees it: \<open>visits n e\<close> is the
  blast after \<open>n\<close> calls of the callback on it, and \<open>None\<close> once a call has spliced it
  out of the store.
\<close>

fun visits :: "nat \<Rightarrow> Explosion \<Rightarrow> Explosion option" where
  "visits 0 e = Some e"
| "visits (Suc n) e =
     (case growExplosion e of (e1, remove) \<Rightarrow> if remove then None else visits n e1)"

section \<open>Properties\<close>

subsection \<open>Restart\<close>

lemma startGame_explicit:
  "startGame g =
    \<lparr>status = PLAYING, score = 0, level = 1, rockets = [], missiles = [], explosions = [],
     cities = map initCity CITY_POSITIONS,
     towers = map (initTower False (towers g)) TOWER_POSITIONS, meteors = [], planes = [],
     formationTimer = 0, currentFormation = 0, scoreRef = 0\<rparr>"
  by (simp add: startGame_def initGame_def)

lemma initTower_fresh:
  "initTower False ts p =
    \<lparr>t_id = tp_id p, t_x = tp_x p, t_y = tp_y p, t_targetX = tp_x p, t_targetY = tp_y p,
     t_ammo = tp_maxAmmo p, t_maxAmmo = tp_maxAmmo p, t_health = 5, t_maxHealth = 5,
     t_destroyed = False\<rparr>"
  by (simp add: initTower_def split: option.splits)

text \<open>
  C9. The restart command is \<^verbatim>\<open>startGame\<close>. Its result does not depend on the state it is
  called in, so a second call in succession gives the same state again: status PLAYING,
  score 0, level 1, the stores of rockets, missiles, explosions, meteors and planes empty,
  the cities rebuilt from \<open>CITY_POSITIONS\<close> (identifier and position of each row, size
  40 by 20) with health 2 of 2, and the towers rebuilt from \<open>TOWER_POSITIONS\<close>
  (identifier, position and capacity of each row) with health 5 of 5 and ammunition
  equal to their capacity.
\<close>

theorem restart_idempotent:
  "startGame (startGame g) = startGame g
   \<and> startGame g = startGame g'
   \<and> status (startGame g) = PLAYING
   \<and> score (startGame g) = 0 \<and> scoreRef (startGame g) = 0 \<and> level (startGame g) = 1
   \<and> rockets (startGame g) = [] \<and> missiles (startGame g) = [] \<and> explosions (startGame g) = []
   \<and> meteors (startGame g) = [] \<and> planes (startGame g) = []
   \<and> cities (startGame g) = map initCity CITY_POSITIONS
   \<and> map (\<lambda>c. (c_id c, c_x c, c_y c)) (cities (startGame g))
        = map (\<lambda>p. (cp_id p, cp_x p, cp_y p)) CITY_POSITIONS
   \<and> list_all (\<lambda>c. c_width c = 40 \<and> c_height c = 20) (cities (startGame g))
   \<and> list_all (\<lambda>c. c_health c = 2 \<and> c_maxHealth c = 2 \<and> \<not> c_destroyed c) (cities (startGame g))
   \<and> map (\<lambda>t. (t_id t, t_x t, t_y t, t_maxAmmo t)) (towers (startGame g))
        = map (\<lambda>p. (tp_id p, tp_x p, tp_y p, tp_maxAmmo p)) TOWER_POSITIONS
   \<and> list_all (\<lambda>t. t_ammo t = t_maxAmmo t \<and> t_health t = 5 \<and> t_maxHealth t = 5 \<and> \<not> t_destroyed t)
        (towers (startGame g))
   \<and> list_all (\<lambda>t. t_targetX t = t_x t \<and> t_targetY t = t_y t) (towers (startGame g))
   \<and> formationTimer (startGame g) = 0 \<and> currentFormation (startGame g) = 0"
  by (simp add: startGame_explicit initTower_fresh initCity_def TOWER_POSITIONS_def CITY_POSITIONS_def)

subsection \<open>The fire command\<close>

text \<open>
  C10. In a state other than PLAYING the handler of the pointer event returns at once:
  the whole state, and so every tower's ammunition and every store, is as before.
\<close>

theorem fire_ignored_outside_playing:
  "status g \<noteq> PLAYING \<Longrightarrow> handleCanvasClick canvas clientX clientY newId g = g"
  by (simp add: handleCanvasClick_def)

theorem fire_ignored_outside_playing_witness:
  "status (scenarioA\<lparr>status := LEVEL_UP\<rparr>) \<noteq> PLAYING
   \<and> handleCanvasClick (Some plainCanvas) 40 300 ''m1'' (scenarioA\<lparr>status := LEVEL_UP\<rparr>)
       = scenarioA\<lparr>status := LEVEL_UP\<rparr>"
  using fire_ignored_outside_playing
          [of "scenarioA\<lparr>status := LEVEL_UP\<rparr>" "Some plainCanvas" 40 300 "''m1''"]
  by simp

lemma closestTower_skip:
  "\<not> eligible tower \<Longrightarrow> closestTower x (tower # ts) i best = closestTower x ts (Suc i) best"
  by (auto simp: eligible_def)

lemma closestTower_take:
  "eligible tower \<Longrightarrow> (case best of None \<Rightarrow> True | Some (j0, d0) \<Rightarrow> \<bar>t_x tower - x\<bar> < d0) \<Longrightarrow>
   closestTower x (tower # ts) i best = closestTower x ts (Suc i) (Some (i, \<bar>t_x tower - x\<bar>))"
  by (auto simp: eligible_def Let_def split: option.splits)

lemma closestTower_keep:
  "eligible tower \<Longrightarrow> \<not> \<bar>t_x tower - x\<bar> < d0 \<Longrightarrow>
   closestTower x (tower # ts) i (Some (j0, d0)) = closestTower x ts (Suc i) (Some (j0, d0))"
  by (simp add: eligible_def Let_def)

lemma closestTower_cases:
  obtains (skip) "\<not> eligible tower"
  | (take) "eligible tower" "(case best of None \<Rightarrow> True | Some (j0, d0) \<Rightarrow> \<bar>t_x tower - x\<bar> < d0)"
  | (keep) j0 d0 where "eligible tower" "best = Some (j0, d0)" "\<not> \<bar>t_x tower - x\<bar> < d0"
  by (cases best) (auto split: option.splits)

lemma closestTower_None:
  "closestTower x ts i best = None \<longleftrightarrow> best = None \<and> (\<forall>t \<in> set ts. \<not> eligible t)"
  by (induction ts arbitrary: i best) (auto simp: eligible_def Let_def split: option.splits)

lemma closestTower_le_best:
  "closestTower x ts i (Some (j0, d0)) = Some (j, d) \<Longrightarrow> d \<le> d0"
proof (induction ts arbitrary: i j0 d0)
  case Nil
  then show ?case by simp
next
  case (Cons tower ts)
  show ?case
  proof (cases "\<not> t_destroyed tower \<and> 0 < t_ammo tower \<and> \<bar>t_x tower - x\<bar> < d0")
    case True
    with Cons.prems have "closestTower x ts (Suc i) (Some (i, \<bar>t_x tower - x\<bar>)) = Some (j, d)"
      by (simp add: Let_def)
    from Cons.IH[OF this] True show ?thesis by simp
  next
    case False
    with Cons.prems have "closestTower x ts (Suc i) (Some (j0, d0)) = Some (j, d)"
      by (auto simp add: Let_def split: if_splits)
    from Cons.IH[OF this] show ?thesis .
  qed
qed

lemma closestTower_nearest:
  "closestTower x ts i best = Some (j, d) \<Longrightarrow> t \<in> set ts \<Longrightarrow> eligible t \<Longrightarrow> d \<le> \<bar>t_x t - x\<bar>"
proof (induction ts arbitrary: i best)
  case Nil
  then show ?case by simp
next
  case (Cons tower ts)
  show ?case
  proof (cases rule: closestTower_cases[where tower = tower and best = best and x = x])
    case skip
    note run = Cons.prems(1)[unfolded closestTower_skip[OF skip]]
    from skip Cons.prems have "t \<in> set ts" by auto
    with run Cons.IH Cons.prems(3) show ?thesis by blast
  next
    case take
    note run = Cons.prems(1)[unfolded closestTower_take[OF take]]
    show ?thesis
    proof (cases "t = tower")
      case True
      with closestTower_le_best[OF run] show ?thesis by simp
    next
      case False
      with Cons.prems have "t \<in> set ts" by simp
      with run Cons.IH Cons.prems(3) show ?thesis by blast
    qed
  next
    case (keep j0 d0)
    note run = Cons.prems(1)[unfolded keep(2) closestTower_keep[OF keep(1,3)]]
    show ?thesis
    proof (cases "t = tower")
      case True
      with closestTower_le_best[OF run] keep show ?thesis by simp
    next
      case False
      with Cons.prems have "t \<in> set ts" by simp
      with run Cons.IH Cons.prems(3) show ?thesis by blast
    qed
  qed
qed

lemma closestTower_index:
  "closestTower x ts i best = Some (j, d) \<Longrightarrow>
   best = Some (j, d) \<or>
   (i \<le> j \<and> j < i + length ts \<and> eligible (ts ! (j - i)) \<and> d = \<bar>t_x (ts ! (j - i)) - x\<bar>)"
proof (induction ts arbitrary: i best)
  case Nil
  then show ?case by simp
next
  case (Cons tower ts)
  have shift: "Suc i \<le> j \<Longrightarrow> (tower # ts) ! (j - i) = ts ! (j - Suc i)" for j
    by (simp add: Suc_diff_le)
  show ?case
  proof (cases rule: closestTower_cases[where tower = tower and best = best and x = x])
    case skip
    note run = Cons.prems(1)[unfolded closestTower_skip[OF skip]]
    from Cons.IH[OF run] show ?thesis using shift by auto
  next
    case take
    note run = Cons.prems(1)[unfolded closestTower_take[OF take]]
    from Cons.IH[OF run] show ?thesis using shift take(1) by auto
  next
    case (keep j0 d0)
    note run = Cons.prems(1)[unfolded keep(2) closestTower_keep[OF keep(1,3)]]
    from Cons.IH[OF run] show ?thesis using shift keep(2) by auto
  qed
qed

lemma closestTower_start:
  assumes "closestTower x ts 0 None = Some (j, d)"
  shows "j < length ts" and "eligible (ts ! j)" and "d = \<bar>t_x (ts ! j) - x\<bar>"
    and "\<And>k. k < length ts \<Longrightarrow> eligible (ts ! k) \<Longrightarrow> \<bar>t_x (ts ! j) - x\<bar> \<le> \<bar>t_x (ts ! k) - x\<bar>"
proof -
  from closestTower_index[OF assms]
  show j: "j < length ts" and "eligible (ts ! j)" and d: "d = \<bar>t_x (ts ! j) - x\<bar>" by auto
  fix k assume "k < length ts" "eligible (ts ! k)"
  with closestTower_nearest[OF assms, of "ts ! k"] d
  show "\<bar>t_x (ts ! j) - x\<bar> \<le> \<bar>t_x (ts ! k) - x\<bar>" by simp
qed

lemma fire_none:
  "closestTower x (towers g) 0 None = None \<Longrightarrow> fire x y newId g = g"
  by (simp add: fire_def)

lemma fire_some:
  "closestTower x (towers g) 0 None = Some (i, d) \<Longrightarrow>
   fire x y newId g =
     g\<lparr>towers := (towers g)[i := (towers g ! i)\<lparr>t_ammo := t_ammo (towers g ! i) - 1\<rparr>],
       missiles := missiles g @
         [\<lparr>m_id = newId,
           m_start = \<lparr>px = t_x (towers g ! i), py = t_y (towers g ! i)\<rparr>,
           m_current = \<lparr>px = t_x (towers g ! i), py = t_y (towers g ! i)\<rparr>,
           m_target = \<lparr>px = x, py = y\<rparr>,
           m_speed = MISSILE_SPEED,
           m_angle = atan2 (y - t_y (towers g ! i)) (x - t_x (towers g ! i)),
           m_towerId = t_id (towers g ! i)\<rparr>],
       score := scoreRef g\<rparr>"
  by (simp add: fire_def Let_def)

text \<open>
  C5. The fire command at the world point \<open>(x, y)\<close>. If no tower is eligible (not
  destroyed, ammunition above 0) the state is unchanged. Otherwise there is an eligible
  tower, at some index \<open>i\<close>, that is no farther from \<open>x\<close> in horizontal distance than any
  eligible tower, and the command takes one round from that tower, leaves every other
  tower as it is, and appends one missile that starts at the tower's position and is aimed
  at \<open>(x, y)\<close>. In particular, when the only eligible tower stands at \<open>(40, 560)\<close> with 300
  rounds, firing at \<open>(40, 300)\<close> appends one missile with angle \<open>-\<pi>/2\<close> and leaves 299
  rounds.
\<close>

theorem fire_command:
  "((\<forall>t \<in> set (towers g). \<not> eligible t) \<longrightarrow> fire x y newId g = g)
   \<and> ((\<exists>t \<in> set (towers g). eligible t) \<longrightarrow>
        (\<exists>i < length (towers g).
           eligible (towers g ! i)
           \<and> (\<forall>k < length (towers g). eligible (towers g ! k) \<longrightarrow>
                 \<bar>t_x (towers g ! i) - x\<bar> \<le> \<bar>t_x (towers g ! k) - x\<bar>)
           \<and> fire x y newId g =
               g\<lparr>towers := (towers g)[i := (towers g ! i)\<lparr>t_ammo := t_ammo (towers g ! i) - 1\<rparr>],
                 missiles := missiles g @
                   [\<lparr>m_id = newId,
                     m_start = \<lparr>px = t_x (towers g ! i), py = t_y (towers g ! i)\<rparr>,
                     m_current = \<lparr>px = t_x (towers g ! i), py = t_y (towers g ! i)\<rparr>,
                     m_target = \<lparr>px = x, py = y\<rparr>,
                     m_speed = MISSILE_SPEED,
                     m_angle = atan2 (y - t_y (towers g ! i)) (x - t_x (towers g ! i)),
                     m_towerId = t_id (towers g ! i)\<rparr>],
                 score := scoreRef g\<rparr>))
   \<and> (i < length (towers g) \<and> eligible (towers g ! i)
        \<and> (\<forall>k < length (towers g). k \<noteq> i \<longrightarrow> \<not> eligible (towers g ! k))
        \<and> t_x (towers g ! i) = 40 \<and> t_y (towers g ! i) = 560 \<and> t_ammo (towers g ! i) = 300 \<longrightarrow>
        fire 40 300 newId g =
          g\<lparr>towers := (towers g)[i := (towers g ! i)\<lparr>t_ammo := 299\<rparr>],
            missiles := missiles g @
              [\<lparr>m_id = newId,
                m_start = \<lparr>px = 40, py = 560\<rparr>, m_current = \<lparr>px = 40, py = 560\<rparr>,
                m_target = \<lparr>px = 40, py = 300\<rparr>,
                m_speed = 8, m_angle = - (pi / 2),
                m_towerId = t_id (towers g ! i)\<rparr>],
            score := scoreRef g\<rparr>)"
proof (intro conjI impI)
  assume "\<forall>t \<in> set (towers g). \<not> eligible t"
  then have "closestTower x (towers g) 0 None = None"
    by (simp add: closestTower_None)
  then show "fire x y newId g = g" by (rule fire_none)
next
  assume "\<exists>t \<in> set (towers g). eligible t"
  then have "closestTower x (towers g) 0 None \<noteq> None"
    by (simp add: closestTower_None)
  then obtain j d where run: "closestTower x (towers g) 0 None = Some (j, d)"
    by (cases "closestTower x (towers g) 0 None") auto
  from closestTower_start[OF run] fire_some[OF run]
  show "\<exists>i < length (towers g).
           eligible (towers g ! i)
           \<and> (\<forall>k < length (towers g). eligible (towers g ! k) \<longrightarrow>
                 \<bar>t_x (towers g ! i) - x\<bar> \<le> \<bar>t_x (towers g ! k) - x\<bar>)
           \<and> fire x y newId g =
               g\<lparr>towers := (towers g)[i := (towers g ! i)\<lparr>t_ammo := t_ammo (towers g ! i) - 1\<rparr>],
                 missiles := missiles g @
                   [\<lparr>m_id = newId,
                     m_start = \<lparr>px = t_x (towers g ! i), py = t_y (towers g ! i)\<rparr>,
                     m_current = \<lparr>px = t_x (towers g ! i), py = t_y (towers g ! i)\<rparr>,
                     m_target = \<lparr>px = x, py = y\<rparr>,
                     m_speed = MISSILE_SPEED,
                     m_angle = atan2 (y - t_y (towers g ! i)) (x - t_x (towers g ! i)),
                     m_towerId = t_id (towers g ! i)\<rparr>],
                 score := scoreRef g\<rparr>"
    by (intro exI[of _ j]) blast
next
  assume a: "i < length (towers g) \<and> eligible (towers g ! i)
        \<and> (\<forall>k < length (towers g). k \<noteq> i \<longrightarrow> \<not> eligible (towers g ! k))
        \<and> t_x (towers g ! i) = 40 \<and> t_y (towers g ! i) = 560 \<and> t_ammo (towers g ! i) = 300"
  then have "towers g ! i \<in> set (towers g)" by simp
  with a have "closestTower 40 (towers g) 0 None \<noteq> None"
    by (auto simp: closestTower_None)
  then obtain j d where run: "closestTower 40 (towers g) 0 None = Some (j, d)"
    by (cases "closestTower 40 (towers g) 0 None") auto
  from closestTower_start(1,2)[OF run] a have "j = i" by blast
  with fire_some[OF run, of 300 newId] a
  show "fire 40 300 newId g =
          g\<lparr>towers := (towers g)[i := (towers g ! i)\<lparr>t_ammo := 299\<rparr>],
            missiles := missiles g @
              [\<lparr>m_id = newId,
                m_start = \<lparr>px = 40, py = 560\<rparr>, m_current = \<lparr>px = 40, py = 560\<rparr>,
                m_target = \<lparr>px = 40, py = 300\<rparr>,
                m_speed = 8, m_angle = - (pi / 2),
                m_towerId = t_id (towers g ! i)\<rparr>],
            score := scoreRef g\<rparr>"
    by (simp add: atan2_def MISSILE_SPEED_def)
qed

theorem fire_command_witness:
  "\<not> (\<exists>t \<in> set (towers initial). eligible t)
   \<and> fire 40 300 ''m1'' initial = initial
   \<and> (\<exists>t \<in> set (towers scenarioA). eligible t)
   \<and> \<not> (\<exists>k < length (towers scenarioA). k \<noteq> 0 \<and> eligible (towers scenarioA ! k))
   \<and> level scenarioA = 1
   \<and> fire 40 300 ''m1'' scenarioA =
       scenarioA\<lparr>towers := [towerA\<lparr>t_ammo := 299\<rparr>],
                 missiles :=
                   [\<lparr>m_id = ''m1'',
                     m_start = \<lparr>px = 40, py = 560\<rparr>, m_current = \<lparr>px = 40, py = 560\<rparr>,
                     m_target = \<lparr>px = 40, py = 300\<rparr>,
                     m_speed = 8, m_angle = - (pi / 2), m_towerId = 0\<rparr>]\<rparr>"
  using fire_command [where g = initial and x = 40 and y = 300 and newId = "''m1''" and i = 0]
        fire_command [where g = scenarioA and x = 40 and y = 300 and newId = "''m1''" and i = 0]
  by (simp add: initial_def scenarioA_def towerA_def eligible_def MISSILE_SPEED_def atan2_def)

subsection \<open>Frames of the loops\<close>

lemma forEach_preserves:
  assumes "\<And>k s. k < len s \<Longrightarrow> f (body k s) = f s"
  shows "f (forEach n k len body s) = f s"
proof (induction n arbitrary: k s)
  case 0
  show ?case by simp
next
  case (Suc n)
  have "f (forEach n (Suc k) len body (if k < len s then body k s else s))
        = f (if k < len s then body k s else s)"
    by (rule Suc.IH)
  also have "\<dots> = f s" using assms by simp
  finally show ?case by simp
qed

text \<open>What the phases of a tick leave alone.\<close>

lemma damageTower_keeps: "t_ammo (damageTower p t) = t_ammo t \<and> t_id (damageTower p t) = t_id t"
  by (simp add: damageTower_def Let_def)

lemma rocketStep_keeps:
  "(\<lambda>s. (status s, level s, scoreRef s, score s, map t_ammo (towers s), map t_id (towers s),
         missiles s, planes s, meteors s, formationTimer s, currentFormation s))
     (rocketStep env k g)
   = (status g, level g, scoreRef g, score g, map t_ammo (towers g), map t_id (towers g),
      missiles g, planes g, meteors g, formationTimer g, currentFormation g)"
  by (simp add: rocketStep_def Let_def damageTower_keeps comp_def)

lemma updateRockets_keeps:
  "(\<lambda>s. (status s, level s, scoreRef s, score s, map t_ammo (towers s), map t_id (towers s),
         missiles s, planes s, meteors s, formationTimer s, currentFormation s))
     (updateRockets env g)
   = (status g, level g, scoreRef g, score g, map t_ammo (towers g), map t_id (towers g),
      missiles g, planes g, meteors g, formationTimer g, currentFormation g)"
  unfolding updateRockets_def by (rule forEach_preserves) (rule rocketStep_keeps)

lemma laserRocket_keeps:
  "(\<lambda>s. (status s, level s, towers s, cities s, meteors s, formationTimer s, currentFormation s,
         missiles s, explosions s, planes s)) (laserRocket m i g)
   = (status g, level g, towers g, cities g, meteors g, formationTimer g, currentFormation g,
      missiles g, explosions g, planes g)"
  by (simp add: laserRocket_def Let_def addScore_def)

lemma laserPlane_keeps:
  "(\<lambda>s. (status s, level s, towers s, cities s, meteors s, formationTimer s, currentFormation s,
         missiles s, explosions s, rockets s)) (laserPlane m i g)
   = (status g, level g, towers g, cities g, meteors g, formationTimer g, currentFormation g,
      missiles g, explosions g, rockets g)"
  by (simp add: laserPlane_def Let_def addScore_def)

lemma blastRocket_keeps:
  "(\<lambda>s. (status s, level s, towers s, cities s, meteors s, formationTimer s, currentFormation s,
         missiles s, explosions s, planes s)) (blastRocket e i g)
   = (status g, level g, towers g, cities g, meteors g, formationTimer g, currentFormation g,
      missiles g, explosions g, planes g)"
  by (simp add: blastRocket_def Let_def addScore_def)

lemma blastPlane_keeps:
  "(\<lambda>s. (status s, level s, towers s, cities s, meteors s, formationTimer s, currentFormation s,
         missiles s, explosions s, rockets s)) (blastPlane e i g)
   = (status g, level g, towers g, cities g, meteors g, formationTimer g, currentFormation g,
      missiles g, explosions g, rockets g)"
  by (simp add: blastPlane_def Let_def addScore_def)

lemma missileStep_keeps:
  "(\<lambda>s. (status s, level s, towers s, cities s, meteors s, formationTimer s, currentFormation s))
     (missileStep env k g)
   = (status g, level g, towers g, cities g, meteors g, formationTimer g, currentFormation g)"
proof -
  let ?f = "\<lambda>s. (status s, level s, towers s, cities s, meteors s, formationTimer s, currentFormation s)"
  have a: "?f (forEach n j (\<lambda>s. length (rockets s)) (laserRocket m) s) = ?f s" for n j m s
    by (rule forEach_preserves) (use laserRocket_keeps in simp)
  have b: "?f (forEach n j (\<lambda>s. length (planes s)) (laserPlane m) s) = ?f s" for n j m s
    by (rule forEach_preserves) (use laserPlane_keeps in simp)
  show ?thesis
    using a b by (simp add: missileStep_def Let_def)
qed

lemma updateMissiles_keeps:
  "(\<lambda>s. (status s, level s, towers s, cities s, meteors s, formationTimer s, currentFormation s))
     (updateMissiles env g)
   = (status g, level g, towers g, cities g, meteors g, formationTimer g, currentFormation g)"
  unfolding updateMissiles_def by (rule forEach_preserves) (rule missileStep_keeps)

lemma explosionStep_keeps:
  "(\<lambda>s. (status s, level s, towers s, cities s, meteors s, formationTimer s, currentFormation s,
         missiles s))
     (explosionStep k g)
   = (status g, level g, towers g, cities g, meteors g, formationTimer g, currentFormation g,
      missiles g)"
proof -
  let ?f = "\<lambda>s. (status s, level s, towers s, cities s, meteors s, formationTimer s,
                  currentFormation s, missiles s)"
  have a: "?f (forEach n j (\<lambda>s. length (rockets s)) (blastRocket e) s) = ?f s" for n j e s
    by (rule forEach_preserves) (use blastRocket_keeps in simp)
  have b: "?f (forEach n j (\<lambda>s. length (planes s)) (blastPlane e) s) = ?f s" for n j e s
    by (rule forEach_preserves) (use blastPlane_keeps in simp)
  show ?thesis
    using a b by (simp add: explosionStep_def Let_def split: prod.splits)
qed

lemma updateExplosions_keeps:
  "(\<lambda>s. (status s, level s, towers s, cities s, meteors s, formationTimer s, currentFormation s,
         missiles s))
     (updateExplosions g)
   = (status g, level g, towers g, cities g, meteors g, formationTimer g, currentFormation g,
      missiles g)"
  unfolding updateExplosions_def by (rule forEach_preserves) (rule explosionStep_keeps)

lemma meteorStep_keeps:
  "(\<lambda>s. (status s, level s, towers s, scoreRef s)) (meteorStep k g)
   = (status g, level g, towers g, scoreRef g)"
  by (simp add: meteorStep_def Let_def)

lemma updateMeteors_keeps:
  "(\<lambda>s. (status s, level s, towers s, scoreRef s)) (updateMeteors env g)
   = (status g, level g, towers g, scoreRef g)"
proof -
  have "(\<lambda>s. (status s, level s, towers s, scoreRef s)) (updateMeteors env g)
        = (\<lambda>s. (status s, level s, towers s, scoreRef s)) (spawnMeteor env g)"
    unfolding updateMeteors_def Let_def by (rule forEach_preserves) (rule meteorStep_keeps)
  then show ?thesis by (simp add: spawnMeteor_def Let_def)
qed

lemma planeStep_keeps:
  "(\<lambda>s. (status s, level s, towers s, scoreRef s)) (planeStep k g)
   = (status g, level g, towers g, scoreRef g)"
  by (simp add: planeStep_def Let_def)

lemma updatePlanes_keeps:
  "(\<lambda>s. (status s, level s, towers s, scoreRef s)) (updatePlanes g)
   = (status g, level g, towers g, scoreRef g)"
  unfolding updatePlanes_def by (rule forEach_preserves) (rule planeStep_keeps)

lemma spawnPlanes_keeps:
  "(\<lambda>s. (status s, level s, towers s, scoreRef s)) (spawnPlanes env g)
   = (status g, level g, towers g, scoreRef g)"
  by (simp add: spawnPlanes_def Let_def)

lemma spawnRocket_shape:
  "spawnRocket env g = Inl TypeError
   \<or> (\<exists>ps rs. spawnRocket env g = Inr (g\<lparr>planes := ps, rockets := rs\<rparr>))"
proof -
  have same: "\<exists>ps rs. (g::game) = g\<lparr>planes := ps, rockets := rs\<rparr>"
    by (rule exI[of _ "planes g"], rule exI[of _ "rockets g"]) simp
  have upd: "\<exists>ps rs. g\<lparr>planes := p\<rparr> = g\<lparr>planes := ps, rockets := rs\<rparr>" for p
    by (rule exI[of _ p], rule exI[of _ "rockets g"]) simp
  have upd2: "\<exists>ps rs. g\<lparr>planes := p, rockets := r\<rparr> = g\<lparr>planes := ps, rockets := rs\<rparr>" for p r
    by blast
  show ?thesis
    unfolding spawnRocket_def Let_def
    by (simp add: same upd upd2 split: option.split)
qed

lemma spawnRocket_keeps:
  assumes "spawnRocket env g = Inr g'"
  shows "(status g', level g', towers g', scoreRef g') = (status g, level g, towers g, scoreRef g)"
  using spawnRocket_shape[of env g] assms by auto

lemma floor_index_in_range:
  assumes "isRandom r" and "0 < n"
  shows "0 \<le> \<lfloor>r * real n\<rfloor> \<and> \<lfloor>r * real n\<rfloor> < int n"
proof -
  from assms have "0 \<le> r * real n" by (simp add: isRandom_def)
  then have a: "0 \<le> \<lfloor>r * real n\<rfloor>" by simp
  from assms have "r * real n < real n" by (simp add: isRandom_def)
  then have "\<lfloor>r * real n\<rfloor> < int n" by (simp add: floor_less_iff)
  with a show ?thesis by simp
qed

lemma at_index_random:
  assumes "isRandom r" and "xs \<noteq> []"
  shows "at_index xs \<lfloor>r * real (length xs)\<rfloor> \<noteq> None"
  using floor_index_in_range[OF assms(1), of "length xs"] assms(2)
  by (simp add: at_index_def)

lemma spawnRocket_no_error:
  assumes "wellFormedEnv env"
  shows "spawnRocket env g \<noteq> Inl e"
proof -
  from assms have r: "isRandom (rocketPlane env)" "isRandom (rocketTarget env)"
    by (simp_all add: wellFormedEnv_def)
  have a: "at_index xs \<lfloor>rocketPlane env * real (length xs)\<rfloor> = None \<longleftrightarrow> xs = []"
    for xs :: "nat list"
    using at_index_random[OF r(1), of xs] by (cases "xs = []") (simp_all add: at_index_def)
  have b: "at_index xs \<lfloor>rocketTarget env * real (length xs)\<rfloor> = None \<longleftrightarrow> xs = []"
    for xs :: "Point list"
    using at_index_random[OF r(2), of xs] by (cases "xs = []") (simp_all add: at_index_def)
  show ?thesis
    unfolding spawnRocket_def Let_def
    by (simp add: a b split: option.split del: length_append length_map of_nat_add) blast
qed

lemma spawnRocket_returns:
  assumes "wellFormedEnv env"
  shows "\<exists>g'. spawnRocket env g = Inr g'"
  using spawnRocket_no_error[OF assms, of g] by (cases "spawnRocket env g") auto

subsection \<open>Tower formation\<close>

lemma formationTower_ok:
  "i < length TOWER_POSITIONS \<Longrightarrow>
   \<exists>tower1. formationTower f i tower = Inr tower1 \<and> t_ammo tower1 = t_ammo tower
     \<and> t_destroyed tower1 = t_destroyed tower \<and> t_id tower1 = t_id tower
     \<and> t_health tower1 = t_health tower"
  by (simp add: formationTower_def at_index_def Let_def)

lemma formationTowers_ok:
  "i + length ts \<le> length TOWER_POSITIONS \<Longrightarrow>
   \<exists>ts1. formationTowers f i ts = Inr ts1 \<and> map t_ammo ts1 = map t_ammo ts
     \<and> map t_destroyed ts1 = map t_destroyed ts \<and> map t_id ts1 = map t_id ts
     \<and> map t_health ts1 = map t_health ts"
proof (induction ts arbitrary: i)
  case Nil
  then show ?case by simp
next
  case (Cons tower ts)
  from Cons.prems have "i < length TOWER_POSITIONS" by simp
  from formationTower_ok[OF this, of f tower]
  obtain tower1 where t1: "formationTower f i tower = Inr tower1" "t_ammo tower1 = t_ammo tower"
     "t_destroyed tower1 = t_destroyed tower" "t_id tower1 = t_id tower"
     "t_health tower1 = t_health tower"
    by blast
  from Cons.prems have "Suc i + length ts \<le> length TOWER_POSITIONS" by simp
  from Cons.IH[OF this]
  obtain ts1 where ts1: "formationTowers f (Suc i) ts = Inr ts1" "map t_ammo ts1 = map t_ammo ts"
     "map t_destroyed ts1 = map t_destroyed ts" "map t_id ts1 = map t_id ts"
     "map t_health ts1 = map t_health ts"
    by blast
  from t1 ts1 show ?case by simp
qed

text \<open>
  One call of \<^verbatim>\<open>updatePlayerFormation\<close> on a state with at most as many towers as the table
  has rows: it returns, and it changes the two counters and the towers' positions only.
\<close>

lemma updatePlayerFormation_ok:
  assumes "length (towers g) \<le> length TOWER_POSITIONS"
  shows "\<exists>ts1. updatePlayerFormation g =
           Inr (g\<lparr>formationTimer := (if 400 < formationTimer g + 1 then 0 else formationTimer g + 1),
                  currentFormation := (if 400 < formationTimer g + 1
                                       then (currentFormation g + 1) mod 3
                                       else currentFormation g),
                  towers := ts1\<rparr>)
         \<and> map t_ammo ts1 = map t_ammo (towers g)
         \<and> map t_destroyed ts1 = map t_destroyed (towers g)
         \<and> map t_id ts1 = map t_id (towers g)
         \<and> map t_health ts1 = map t_health (towers g)"
proof -
  let ?f = "(if 400 < formationTimer g + 1 then (currentFormation g + 1) mod 3 else currentFormation g)"
  from assms have "0 + length (towers g) \<le> length TOWER_POSITIONS" by simp
  from formationTowers_ok[OF this, of ?f]
  obtain ts1 where ts1: "formationTowers ?f 0 (towers g) = Inr ts1" "map t_ammo ts1 = map t_ammo (towers g)"
     "map t_destroyed ts1 = map t_destroyed (towers g)" "map t_id ts1 = map t_id (towers g)"
     "map t_health ts1 = map t_health (towers g)"
    by blast
  then show ?thesis
    by (cases "400 < formationTimer g + 1")
       (auto simp: updatePlayerFormation_def Let_def)
qed

lemma formationTicks_counters:
  "formationTimer g \<le> 400 \<Longrightarrow> length (towers g) \<le> length TOWER_POSITIONS \<Longrightarrow>
   \<exists>g'. formationTicks n g = Inr g'
     \<and> formationTimer g' = (formationTimer g + n) mod 401
     \<and> currentFormation g' mod 3 = (currentFormation g + (formationTimer g + n) div 401) mod 3
     \<and> (n < 401 - formationTimer g \<longrightarrow> currentFormation g' = currentFormation g)
     \<and> (401 - formationTimer g \<le> n \<longrightarrow> currentFormation g' < 3)"
proof (induction n arbitrary: g)
  case 0
  then show ?case by simp
next
  case (Suc n)
  from updatePlayerFormation_ok[OF Suc.prems(2)]
  obtain ts1 where u: "updatePlayerFormation g =
           Inr (g\<lparr>formationTimer := (if 400 < formationTimer g + 1 then 0 else formationTimer g + 1),
                  currentFormation := (if 400 < formationTimer g + 1
                                       then (currentFormation g + 1) mod 3
                                       else currentFormation g),
                  towers := ts1\<rparr>)"
     and len: "map t_ammo ts1 = map t_ammo (towers g)"
    by blast
  let ?g1 = "g\<lparr>formationTimer := (if 400 < formationTimer g + 1 then 0 else formationTimer g + 1),
                  currentFormation := (if 400 < formationTimer g + 1
                                       then (currentFormation g + 1) mod 3
                                       else currentFormation g),
                  towers := ts1\<rparr>"
  from len have "length ts1 = length (towers g)" by (metis length_map)
  with Suc.prems have p: "formationTimer ?g1 \<le> 400" "length (towers ?g1) \<le> length TOWER_POSITIONS"
    by auto
  from Suc.IH[OF p] obtain g' where g': "formationTicks n ?g1 = Inr g'"
     "formationTimer g' = (formationTimer ?g1 + n) mod 401"
     "currentFormation g' mod 3 = (currentFormation ?g1 + (formationTimer ?g1 + n) div 401) mod 3"
     "n < 401 - formationTimer ?g1 \<longrightarrow> currentFormation g' = currentFormation ?g1"
     "401 - formationTimer ?g1 \<le> n \<longrightarrow> currentFormation g' < 3"
    by blast
  have run: "formationTicks (Suc n) g = Inr g'"
    using u g'(1) by simp
  show ?case
  proof (cases "formationTimer g = 400")
    case True
    then have t: "formationTimer ?g1 = 0" "currentFormation ?g1 = (currentFormation g + 1) mod 3"
      by simp_all
    have "formationTimer g' = (formationTimer g + Suc n) mod 401"
      using g'(2) t(1) True by simp
    moreover have "currentFormation g' mod 3
        = (currentFormation g + (formationTimer g + Suc n) div 401) mod 3"
    proof -
      have "(formationTimer g + Suc n) div 401 = 1 + n div 401" using True by simp
      moreover have "currentFormation g' mod 3 = ((currentFormation g + 1) mod 3 + n div 401) mod 3"
        using g'(3) t by simp
      ultimately show ?thesis by (simp add: mod_add_left_eq add.assoc)
    qed
    moreover have "\<not> Suc n < 401 - formationTimer g" using True by simp
    moreover have "currentFormation g' < 3"
    proof (cases "n < 401")
      case True
      with g'(4) t have "currentFormation g' = (currentFormation g + 1) mod 3" by simp
      then show ?thesis by simp
    next
      case False
      with g'(5) t show ?thesis by simp
    qed
    ultimately show ?thesis using run by blast
  next
    case False
    with Suc.prems have lt: "formationTimer g < 400" by simp
    then have t: "formationTimer ?g1 = formationTimer g + 1" "currentFormation ?g1 = currentFormation g"
      by simp_all
    have "formationTimer g' = (formationTimer g + Suc n) mod 401"
      using g'(2) t(1) by simp
    moreover have "currentFormation g' mod 3
        = (currentFormation g + (formationTimer g + Suc n) div 401) mod 3"
      using g'(3) t by simp
    moreover have "Suc n < 401 - formationTimer g \<longrightarrow> currentFormation g' = currentFormation g"
      using g'(4) t lt by auto
    moreover have "401 - formationTimer g \<le> Suc n \<longrightarrow> currentFormation g' < 3"
      using g'(5) t lt by auto
    ultimately show ?thesis using run by blast
  qed
qed

lemma startGame_formation_ready:
  "formationTimer (startGame g) = 0 \<and> currentFormation (startGame g) = 0
   \<and> length (towers (startGame g)) \<le> length TOWER_POSITIONS"
  by (simp add: startGame_def initGame_def)

text \<open>
  C7, as the code has it. The counter is incremented first and the index advances when
  the counter exceeds 400, that is on the 401st tick after a reset, which resets the
  counter again. From a reset counter the index after \<open>n\<close> ticks is therefore
  \<open>(i + n div 401) mod 3\<close>: it advances once every 401 ticks, round-robin through the
  three formations.
\<close>

theorem formation_advances_every_401:
  assumes "formationTimer g = 0" and "currentFormation g < 3"
    and "length (towers g) \<le> length TOWER_POSITIONS"
  shows "\<exists>g'. formationTicks n g = Inr g'
           \<and> formationTimer g' = n mod 401
           \<and> currentFormation g' = (currentFormation g + n div 401) mod 3"
proof -
  from assms(1) have "formationTimer g \<le> 400" by simp
  from formationTicks_counters[OF this assms(3), of n] assms(1)
  obtain g' where g': "formationTicks n g = Inr g'" "formationTimer g' = n mod 401"
     "currentFormation g' mod 3 = (currentFormation g + n div 401) mod 3"
     "n < 401 \<longrightarrow> currentFormation g' = currentFormation g"
     "401 \<le> n \<longrightarrow> currentFormation g' < 3"
    by auto
  from g'(4,5) assms(2) have "currentFormation g' < 3" by (cases "n < 401") auto
  with g'(3) have "currentFormation g' = (currentFormation g + n div 401) mod 3" by simp
  with g'(1,2) show ?thesis by blast
qed

theorem formation_advances_every_401_witness:
  "formationTimer (startGame initial) = 0 \<and> currentFormation (startGame initial) < 3
   \<and> length (towers (startGame initial)) \<le> length TOWER_POSITIONS
   \<and> (\<exists>g'. formationTicks 802 (startGame initial) = Inr g'
          \<and> formationTimer g' = 0 \<and> currentFormation g' = 2)"
  using formation_advances_every_401 [of "startGame initial" 802]
        startGame_formation_ready [of initial]
  by (simp add: numeral_2_eq_2)

text \<open>
  C7 as the specification words it, an advance every 400 ticks, fails: 400 ticks after
  a restart the index is still 0, and it is 1 one tick later.
\<close>

theorem formation_400_counterexample:
  "formationTimer (startGame initial) = 0 \<and> currentFormation (startGame initial) = 0
   \<and> map_sum id currentFormation (formationTicks 400 (startGame initial)) = Inr 0
   \<and> map_sum id currentFormation (formationTicks 401 (startGame initial)) = Inr 1"
proof -
  have r: "formationTimer (startGame initial) \<le> 400"
    "length (towers (startGame initial)) \<le> length TOWER_POSITIONS"
    using startGame_formation_ready [of initial] by simp_all
  from formationTicks_counters [OF r, of 400] startGame_formation_ready [of initial]
  have a: "map_sum id currentFormation (formationTicks 400 (startGame initial)) = Inr 0"
    by auto
  from formationTicks_counters [OF r, of 401] startGame_formation_ready [of initial]
  have b: "map_sum id currentFormation (formationTicks 401 (startGame initial)) = Inr 1"
    by auto
  from a b startGame_formation_ready [of initial] show ?thesis by simp
qed

subsection \<open>The tick as a whole\<close>

lemma checkProgress_result:
  "checkProgress g =
     g\<lparr>status := (if list_all t_destroyed (towers g) then LOST
                  else if level g * 500 \<le> scoreRef g then (if 10 \<le> level g then WON else LEVEL_UP)
                  else status g)\<rparr>"
  by (simp add: checkProgress_def Let_def)

lemma formationTower_shape:
  "formationTower f i tower = Inl TypeError
   \<or> (\<exists>tower1. formationTower f i tower = Inr tower1 \<and> t_ammo tower1 = t_ammo tower
         \<and> t_destroyed tower1 = t_destroyed tower \<and> t_id tower1 = t_id tower)"
  by (simp add: formationTower_def Let_def split: option.split)

lemma formationTower_Inr:
  assumes "formationTower f i tower = Inr tower1"
  shows "t_ammo tower1 = t_ammo tower \<and> t_destroyed tower1 = t_destroyed tower
         \<and> t_id tower1 = t_id tower"
  using formationTower_shape[of f i tower] assms by auto

lemma formationTowers_Inr:
  "formationTowers f i ts = Inr ts1 \<Longrightarrow>
   map t_ammo ts1 = map t_ammo ts \<and> map t_destroyed ts1 = map t_destroyed ts
   \<and> map t_id ts1 = map t_id ts"
proof (induction ts arbitrary: i ts1)
  case Nil
  then show ?case by simp
next
  case (Cons tower ts)
  from Cons.prems obtain tower1 ts2 where
    s: "formationTower f i tower = Inr tower1" "formationTowers f (Suc i) ts = Inr ts2"
       "ts1 = tower1 # ts2"
    by (auto split: sum.splits)
  from Cons.IH[OF s(2)] formationTower_Inr[OF s(1)] s(3) show ?case by simp
qed

lemma updatePlayerFormation_Inr:
  assumes "updatePlayerFormation g = Inr g'"
  shows "status g' = status g" and "level g' = level g" and "scoreRef g' = scoreRef g"
    and "map t_ammo (towers g') = map t_ammo (towers g)"
    and "map t_destroyed (towers g') = map t_destroyed (towers g)"
    and "map t_id (towers g') = map t_id (towers g)"
proof -
  let ?f = "(if 400 < formationTimer g + 1 then (currentFormation g + 1) mod 3 else currentFormation g)"
  let ?t = "(if 400 < formationTimer g + 1 then 0 else formationTimer g + 1)"
  from assms obtain ts1 where ts1: "formationTowers ?f 0 (towers g) = Inr ts1"
    and g': "g' = g\<lparr>formationTimer := ?t, currentFormation := ?f, towers := ts1\<rparr>"
    by (cases "400 < formationTimer g + 1")
       (auto simp: updatePlayerFormation_def Let_def split: sum.splits)
  from g' show "status g' = status g" and "level g' = level g" and "scoreRef g' = scoreRef g"
    by simp_all
  from formationTowers_Inr[OF ts1] g'
  show "map t_ammo (towers g') = map t_ammo (towers g)"
    and "map t_destroyed (towers g') = map t_destroyed (towers g)"
    and "map t_id (towers g') = map t_id (towers g)"
    by simp_all
qed

lemma list_all_as_map: "list_all f xs = (\<forall>b \<in> set (map f xs). b)"
  by (simp add: list_all_iff)

lemma list_all_cong_map:
  "map f xs = map f ys \<Longrightarrow> list_all f xs = list_all f ys"
  by (simp only: list_all_as_map)

lemma update_split:
  assumes "update env g = Inr g'"
  obtains g5 where
    "updatePlayerFormation (checkProgress (updateExplosions (updateMissiles env (updateRockets env g)))) = Inr g5"
    "spawnRocket env (spawnPlanes env (updatePlanes (updateMeteors env g5))) = Inr g'"
  using assms unfolding update_def Let_def by (simp split: sum.splits)

lemma loops_keep:
  "status (updateExplosions (updateMissiles env (updateRockets env g))) = status g"
  "level (updateExplosions (updateMissiles env (updateRockets env g))) = level g"
  "map t_ammo (towers (updateExplosions (updateMissiles env (updateRockets env g))))
     = map t_ammo (towers g)"
  "map t_id (towers (updateExplosions (updateMissiles env (updateRockets env g))))
     = map t_id (towers g)"
proof -
  let ?g3 = "updateExplosions (updateMissiles env (updateRockets env g))"
  let ?g1 = "updateRockets env g"
  let ?g2 = "updateMissiles env ?g1"
  have k1: "status ?g1 = status g" "level ?g1 = level g"
    "map t_ammo (towers ?g1) = map t_ammo (towers g)" "map t_id (towers ?g1) = map t_id (towers g)"
    using updateRockets_keeps[of env g] by simp_all
  have k2: "status ?g2 = status ?g1" "level ?g2 = level ?g1" "towers ?g2 = towers ?g1"
    using updateMissiles_keeps[of env ?g1] by simp_all
  have k3: "status ?g3 = status ?g2" "level ?g3 = level ?g2" "towers ?g3 = towers ?g2"
    using updateExplosions_keeps[of ?g2] by simp_all
  show "status ?g3 = status g" by (simp only: k1 k2 k3)
  show "level ?g3 = level g" by (simp only: k1 k2 k3)
  show "map t_ammo (towers ?g3) = map t_ammo (towers g)" by (simp only: k1 k2 k3)
  show "map t_id (towers ?g3) = map t_id (towers g)" by (simp only: k1 k2 k3)
qed

lemma tail_keeps:
  assumes "spawnRocket env (spawnPlanes env (updatePlanes (updateMeteors env g5))) = Inr g'"
  shows "status g' = status g5" and "level g' = level g5" and "towers g' = towers g5"
    and "scoreRef g' = scoreRef g5"
proof -
  let ?a = "updateMeteors env g5"
  let ?b = "updatePlanes ?a"
  let ?c = "spawnPlanes env ?b"
  have ka: "status ?a = status g5" "level ?a = level g5" "towers ?a = towers g5"
    "scoreRef ?a = scoreRef g5"
    using updateMeteors_keeps[of env g5] by simp_all
  have kb: "status ?b = status ?a" "level ?b = level ?a" "towers ?b = towers ?a"
    "scoreRef ?b = scoreRef ?a"
    using updatePlanes_keeps[of ?a] by simp_all
  have kc: "status ?c = status ?b" "level ?c = level ?b" "towers ?c = towers ?b"
    "scoreRef ?c = scoreRef ?b"
    using spawnPlanes_keeps[of env ?b] by simp_all
  have kd: "status g' = status ?c" "level g' = level ?c" "towers g' = towers ?c"
    "scoreRef g' = scoreRef ?c"
    using spawnRocket_keeps[OF assms] by simp_all
  show "status g' = status g5" by (simp only: ka kb kc kd)
  show "level g' = level g5" by (simp only: ka kb kc kd)
  show "towers g' = towers g5" by (simp only: ka kb kc kd)
  show "scoreRef g' = scoreRef g5" by (simp only: ka kb kc kd)
qed

text \<open>
  The shape of a tick that returns: level and ammunition are as before, and the status is
  decided by the two checks in their order, on the score the three loops left and on
  the towers as they stand at the end of the tick.
\<close>

lemma update_Inr:
  assumes "update env g = Inr g'"
  shows "level g' = level g"
    and "map t_ammo (towers g') = map t_ammo (towers g)"
    and "map t_id (towers g') = map t_id (towers g)"
    and "status g' = (if list_all t_destroyed (towers g') then LOST
                      else if level g * 500 \<le> scoreRef g'
                           then (if 10 \<le> level g then WON else LEVEL_UP)
                      else status g)"
proof -
  let ?g3 = "updateExplosions (updateMissiles env (updateRockets env g))"
  from update_split[OF assms] obtain g5 where
    g5: "updatePlayerFormation (checkProgress ?g3) = Inr g5" and
    g': "spawnRocket env (spawnPlanes env (updatePlanes (updateMeteors env g5))) = Inr g'"
    by blast
  note k3 = loops_keep[of env g]
  have k4: "level (checkProgress ?g3) = level ?g3" "towers (checkProgress ?g3) = towers ?g3"
    "scoreRef (checkProgress ?g3) = scoreRef ?g3"
    "status (checkProgress ?g3) = (if list_all t_destroyed (towers ?g3) then LOST
                   else if level ?g3 * 500 \<le> scoreRef ?g3
                        then (if 10 \<le> level ?g3 then WON else LEVEL_UP)
                   else status ?g3)"
    by (simp_all add: checkProgress_result)
  note k5 = updatePlayerFormation_Inr[OF g5]
  note k6 = tail_keeps[OF g']
  show "level g' = level g" by (simp only: k3 k4 k5 k6)
  show "map t_ammo (towers g') = map t_ammo (towers g)" by (simp only: k3 k4 k5 k6)
  show "map t_id (towers g') = map t_id (towers g)" by (simp only: k3 k4 k5 k6)
  have "map t_destroyed (towers g') = map t_destroyed (towers ?g3)"
    by (simp only: k4 k5 k6)
  then have d: "list_all t_destroyed (towers g') = list_all t_destroyed (towers ?g3)"
    by (rule list_all_cong_map)
  have s: "scoreRef g' = scoreRef ?g3" by (simp only: k4 k5 k6)
  have "status g' = status (checkProgress ?g3)" by (simp only: k5 k6)
  also have "\<dots> = (if list_all t_destroyed (towers g') then LOST
                      else if level g * 500 \<le> scoreRef g'
                           then (if 10 \<le> level g then WON else LEVEL_UP)
                      else status g)"
    by (simp only: k4(4) d s k3)
  finally show "status g' = (if list_all t_destroyed (towers g') then LOST
                      else if level g * 500 \<le> scoreRef g'
                           then (if 10 \<le> level g then WON else LEVEL_UP)
                      else status g)" .
qed

lemma update_returns:
  assumes "wellFormedEnv env" and "length (towers g) \<le> length TOWER_POSITIONS"
  shows "\<exists>g'. update env g = Inr g'"
proof -
  let ?g3 = "updateExplosions (updateMissiles env (updateRockets env g))"
  have "length (map t_id (towers (checkProgress ?g3))) = length (map t_id (towers g))"
    by (simp only: checkProgress_result loops_keep(4)) (simp add: loops_keep(4))
  then have "length (towers (checkProgress ?g3)) = length (towers g)" by simp
  with assms(2) have "length (towers (checkProgress ?g3)) \<le> length TOWER_POSITIONS" by simp
  from updatePlayerFormation_ok[OF this] obtain g5
    where g5: "updatePlayerFormation (checkProgress ?g3) = Inr g5"
    by blast
  from spawnRocket_returns[OF assms(1)] obtain g'
    where "spawnRocket env (spawnPlanes env (updatePlanes (updateMeteors env g5))) = Inr g'"
    by blast
  with g5 have "update env g = Inr g'" by (simp add: update_def Let_def)
  then show ?thesis by blast
qed

subsection \<open>Evaluating a tick on a concrete state\<close>

text \<open>The definitions that each phase of a tick unfolds to.\<close>

lemmas rocket_defs =
  updateRockets_def rocketStep_def moveRocket_def damageCity_def damageTower_def
  newExplosion_def splice1_def Let_def EXPLOSION_MAX_RADIUS_def

lemmas missile_defs =
  updateMissiles_def missileStep_def moveMissile_def laserRocket_def laserPlane_def
  addScore_def distToSegment_def newExplosion_def splice1_def Let_def
  EXPLOSION_MAX_RADIUS_def MISSILE_SPEED_def SCORE_PER_ROCKET_def

lemmas explosion_defs =
  updateExplosions_def explosionStep_def growExplosion_def blastRocket_def blastPlane_def
  addScore_def newExplosion_def splice1_def Let_def
  EXPLOSION_MAX_RADIUS_def EXPLOSION_SPEED_def SCORE_PER_ROCKET_def

lemmas formation_defs =
  checkProgress_def updatePlayerFormation_def formationTower_def at_index_def
  TOWER_POSITIONS_def Let_def

text \<open>
  In the quiet environment, on a state without meteors and planes, the part of the tick
  after the formation step changes nothing.
\<close>

lemma quiet_tail:
  assumes "meteors g = []" and "planes g = []" and "level g \<le> 10"
  shows "spawnRocket quietEnv (spawnPlanes quietEnv (updatePlanes (updateMeteors quietEnv g))) = Inr g"
proof -
  have a: "updateMeteors quietEnv g = g"
    using assms(1) by (simp add: updateMeteors_def spawnMeteor_def quietEnv_def)
  have b: "updatePlanes g = g"
    using assms(2) by (simp add: updatePlanes_def)
  have "(2 / 100) * (1 + (real_of_int (level g) - 1) * (1 / 10)) < 1 / 2"
    using assms(3) by simp
  then have c: "spawnPlanes quietEnv g = g"
    by (simp add: spawnPlanes_def quietEnv_def Let_def)
  have d: "spawnRocket quietEnv g = Inr g"
    using assms(2) by (simp add: spawnRocket_def Let_def)
  show ?thesis by (simp only: a b c d)
qed

lemma update_quiet:
  assumes "updateRockets quietEnv g = g1" and "updateMissiles quietEnv g1 = g2"
    and "updateExplosions g2 = g3" and "updatePlayerFormation (checkProgress g3) = Inr g5"
    and "meteors g5 = []" and "planes g5 = []" and "level g5 \<le> 10"
  shows "update quietEnv g = Inr g5"
  using assms(1-4) quiet_tail[OF assms(5-7)] by (simp add: update_def)

subsection \<open>Win, loss and level-up\<close>

lemma gameLoop_playing: "status g = PLAYING \<Longrightarrow> gameLoop env g = update env g"
  by (simp add: gameLoop_def)

lemma lastStand_lost:
  "update quietEnv (lastStand 1) =
     Inr ((lastStand 1)\<lparr>status := LOST, score := 500, scoreRef := 500, rockets := [],
            missiles := [risingMissile ''m1'' 220 392],
            explosions := [(newExplosion ''blast'' 40 (1121 / 2))\<lparr>e_radius := 3 / 2\<rparr>],
            towers := [towerA\<lparr>t_health := 0, t_destroyed := True\<rparr>, wreck],
            formationTimer := 1\<rparr>)"
proof -
  let ?g0 = "lastStand 1"
  let ?g1 = "?g0\<lparr>rockets := [fallingRocket ''r2'' 220 450 560],
                explosions := [newExplosion ''blast'' 40 (1121 / 2)],
                towers := [towerA\<lparr>t_health := 0, t_destroyed := True\<rparr>, wreck]\<rparr>"
  let ?g2 = "?g1\<lparr>rockets := [], missiles := [risingMissile ''m1'' 220 392],
                scoreRef := 500, score := 500\<rparr>"
  let ?g3 = "?g2\<lparr>explosions := [(newExplosion ''blast'' 40 (1121 / 2))\<lparr>e_radius := 3 / 2\<rparr>]\<rparr>"
  let ?g5 = "?g3\<lparr>status := LOST, formationTimer := 1\<rparr>"
  have 1: "updateRockets quietEnv ?g0 = ?g1"
    by (simp add: lastStand_def quietEnv_def initial_def towerA_def wreck_def fallingRocket_def risingMissile_def rocket_defs)
  have 2: "updateMissiles quietEnv ?g1 = ?g2"
    by (simp add: lastStand_def quietEnv_def initial_def towerA_def wreck_def fallingRocket_def risingMissile_def missile_defs)
  have 3: "updateExplosions ?g2 = ?g3"
    by (simp add: lastStand_def quietEnv_def initial_def towerA_def wreck_def fallingRocket_def risingMissile_def explosion_defs)
  have 4: "updatePlayerFormation (checkProgress ?g3) = Inr ?g5"
    by (simp add: lastStand_def quietEnv_def initial_def towerA_def wreck_def fallingRocket_def risingMissile_def formation_defs)
  have "update quietEnv ?g0 = Inr ?g5"
    by (rule update_quiet[OF 1 2 3 4]) (simp_all add: lastStand_def quietEnv_def initial_def towerA_def wreck_def fallingRocket_def risingMissile_def)
  then show ?thesis by (simp add: lastStand_def)
qed

text \<open>
  The same tick with the first tower at full health, at level \<open>l\<close> with the score 20
  short of \<open>l \<times> 500\<close>: the tower survives the impact and moves towards its slot.
\<close>

lemma lastStand_survived:
  assumes "1 \<le> l" and "l \<le> 10"
  shows "update quietEnv ((lastStand 5)\<lparr>level := l, score := l * 500 - 20, scoreRef := l * 500 - 20\<rparr>) =
     Inr ((lastStand 5)\<lparr>level := l, status := (if 10 \<le> l then WON else LEVEL_UP),
            score := l * 500, scoreRef := l * 500, rockets := [],
            missiles := [risingMissile ''m1'' 220 392],
            explosions := [(newExplosion ''blast'' 40 (1121 / 2))\<lparr>e_radius := 3 / 2\<rparr>],
            towers := [towerA\<lparr>t_health := 4, t_targetY := 540, t_y := 2797 / 5\<rparr>, wreck],
            formationTimer := 1\<rparr>)"
proof -
  let ?g0 = "(lastStand 5)\<lparr>level := l, score := l * 500 - 20, scoreRef := l * 500 - 20\<rparr>"
  let ?g1 = "?g0\<lparr>rockets := [fallingRocket ''r2'' 220 450 560],
                explosions := [newExplosion ''blast'' 40 (1121 / 2)],
                towers := [towerA\<lparr>t_health := 4\<rparr>, wreck]\<rparr>"
  let ?g2 = "?g1\<lparr>rockets := [], missiles := [risingMissile ''m1'' 220 392],
                scoreRef := l * 500, score := l * 500\<rparr>"
  let ?g3 = "?g2\<lparr>explosions := [(newExplosion ''blast'' 40 (1121 / 2))\<lparr>e_radius := 3 / 2\<rparr>]\<rparr>"
  let ?g5 = "?g3\<lparr>status := (if 10 \<le> l then WON else LEVEL_UP), formationTimer := 1,
                towers := [towerA\<lparr>t_health := 4, t_targetY := 540, t_y := 2797 / 5\<rparr>, wreck]\<rparr>"
  have 1: "updateRockets quietEnv ?g0 = ?g1"
    by (simp add: lastStand_def quietEnv_def initial_def towerA_def wreck_def fallingRocket_def risingMissile_def rocket_defs)
  have 2: "updateMissiles quietEnv ?g1 = ?g2"
    by (simp add: lastStand_def quietEnv_def initial_def towerA_def wreck_def fallingRocket_def risingMissile_def missile_defs)
  have 3: "updateExplosions ?g2 = ?g3"
    by (simp add: lastStand_def quietEnv_def initial_def towerA_def wreck_def fallingRocket_def risingMissile_def explosion_defs)
  have 4: "updatePlayerFormation (checkProgress ?g3) = Inr ?g5"
    by (simp add: lastStand_def quietEnv_def initial_def towerA_def wreck_def fallingRocket_def risingMissile_def formation_defs)
  have "update quietEnv ?g0 = Inr ?g5"
    by (rule update_quiet[OF 1 2 3 4]) (simp_all add: lastStand_def quietEnv_def initial_def towerA_def wreck_def fallingRocket_def risingMissile_def assms)
  then show ?thesis by (simp add: lastStand_def)
qed

text \<open>
  C1, as the code has it. In state PLAYING, a tick that ends with the score at or above
  \<open>level \<times> 500\<close> and with at least one tower not destroyed sets the status to LEVEL_UP
  when the level is below 10 and to WON when it is 10 or more. (When every tower is
  destroyed at the end of that tick the later check decides, see C2.) At level 1 the
  threshold is 500, at level 10 it is 5000.
\<close>

theorem progression_while_a_tower_stands:
  assumes "status g = PLAYING" and "gameLoop env g = Inr g'"
    and "level g * 500 \<le> scoreRef g'" and "\<not> list_all t_destroyed (towers g')"
  shows "status g' = (if level g < 10 then LEVEL_UP else WON)"
proof -
  from assms(1,2) have "update env g = Inr g'" by (simp add: gameLoop_playing)
  from update_Inr(4)[OF this] assms(3,4) show ?thesis by auto
qed

theorem progression_while_a_tower_stands_witness:
  "status (lastStand 5) = PLAYING \<and> level (lastStand 5) = 1 \<and> scoreRef (lastStand 5) = 480
   \<and> gameLoop quietEnv (lastStand 5) =
       Inr ((lastStand 5)\<lparr>status := LEVEL_UP, score := 500, scoreRef := 500, rockets := [],
              missiles := [risingMissile ''m1'' 220 392],
              explosions := [(newExplosion ''blast'' 40 (1121 / 2))\<lparr>e_radius := 3 / 2\<rparr>],
              towers := [towerA\<lparr>t_health := 4, t_targetY := 540, t_y := 2797 / 5\<rparr>, wreck],
              formationTimer := 1\<rparr>)
   \<and> gameLoop quietEnv ((lastStand 5)\<lparr>level := 10, score := 4980, scoreRef := 4980\<rparr>) =
       Inr ((lastStand 5)\<lparr>level := 10, status := WON, score := 5000, scoreRef := 5000,
              rockets := [], missiles := [risingMissile ''m1'' 220 392],
              explosions := [(newExplosion ''blast'' 40 (1121 / 2))\<lparr>e_radius := 3 / 2\<rparr>],
              towers := [towerA\<lparr>t_health := 4, t_targetY := 540, t_y := 2797 / 5\<rparr>, wreck],
              formationTimer := 1\<rparr>)"
proof -
  let ?a = "lastStand 5"
  let ?a' = "(lastStand 5)\<lparr>status := LEVEL_UP, score := 500, scoreRef := 500, rockets := [],
              missiles := [risingMissile ''m1'' 220 392],
              explosions := [(newExplosion ''blast'' 40 (1121 / 2))\<lparr>e_radius := 3 / 2\<rparr>],
              towers := [towerA\<lparr>t_health := 4, t_targetY := 540, t_y := 2797 / 5\<rparr>, wreck],
              formationTimer := 1\<rparr>"
  let ?b = "(lastStand 5)\<lparr>level := 10, score := 4980, scoreRef := 4980\<rparr>"
  let ?b' = "(lastStand 5)\<lparr>level := 10, status := WON, score := 5000, scoreRef := 5000,
              rockets := [], missiles := [risingMissile ''m1'' 220 392],
              explosions := [(newExplosion ''blast'' 40 (1121 / 2))\<lparr>e_radius := 3 / 2\<rparr>],
              towers := [towerA\<lparr>t_health := 4, t_targetY := 540, t_y := 2797 / 5\<rparr>, wreck],
              formationTimer := 1\<rparr>"
  have pa: "status ?a = PLAYING" and pb: "status ?b = PLAYING"
    by (simp_all add: lastStand_def)
  have ta: "gameLoop quietEnv ?a = Inr ?a'"
    using lastStand_survived[of 1] by (simp add: gameLoop_def lastStand_def initial_def)
  have tb: "gameLoop quietEnv ?b = Inr ?b'"
    using lastStand_survived[of 10] by (simp add: gameLoop_def lastStand_def initial_def)
  have "status ?a' = LEVEL_UP"
    using progression_while_a_tower_stands[OF pa ta]
    by (simp add: lastStand_def initial_def towerA_def)
  moreover have "status ?b' = WON"
    using progression_while_a_tower_stands[OF pb tb]
    by (simp add: lastStand_def initial_def towerA_def)
  ultimately show ?thesis using pa ta tb by (simp add: lastStand_def initial_def)
qed

text \<open>
  C1 without the proviso fails: at level 1 with score 480, a tick in which a
  missile's beam destroys a rocket (score 500) and another rocket destroys the last
  tower ends in LOST, not in LEVEL_UP.
\<close>

theorem progression_counterexample:
  "status (lastStand 1) = PLAYING \<and> level (lastStand 1) = 1 \<and> scoreRef (lastStand 1) = 480
   \<and> map_sum id scoreRef (gameLoop quietEnv (lastStand 1)) = Inr 500
   \<and> map_sum id status (gameLoop quietEnv (lastStand 1)) = Inr LOST"
  using lastStand_lost by (simp add: gameLoop_def lastStand_def initial_def)

text \<open>
  C2. In state PLAYING, a tick at whose end every tower is destroyed sets the status to
  LOST, whatever the score: the check for the loss comes after the check of the score and
  overrides it.
\<close>

theorem loss_overrides_score:
  assumes "status g = PLAYING" and "gameLoop env g = Inr g'"
    and "list_all t_destroyed (towers g')"
  shows "status g' = LOST"
proof -
  from assms(1,2) have "update env g = Inr g'" by (simp add: gameLoop_playing)
  from update_Inr(4)[OF this] assms(3) show ?thesis by simp
qed

theorem loss_overrides_score_witness:
  "status (lastStand 1) = PLAYING
   \<and> gameLoop quietEnv (lastStand 1) =
       Inr ((lastStand 1)\<lparr>status := LOST, score := 500, scoreRef := 500, rockets := [],
              missiles := [risingMissile ''m1'' 220 392],
              explosions := [(newExplosion ''blast'' 40 (1121 / 2))\<lparr>e_radius := 3 / 2\<rparr>],
              towers := [towerA\<lparr>t_health := 0, t_destroyed := True\<rparr>, wreck],
              formationTimer := 1\<rparr>)
   \<and> list_all t_destroyed [towerA\<lparr>t_health := 0, t_destroyed := True\<rparr>, wreck]
   \<and> level (lastStand 1) * 500 \<le> 500"
proof -
  let ?a = "lastStand 1"
  let ?a' = "(lastStand 1)\<lparr>status := LOST, score := 500, scoreRef := 500, rockets := [],
              missiles := [risingMissile ''m1'' 220 392],
              explosions := [(newExplosion ''blast'' 40 (1121 / 2))\<lparr>e_radius := 3 / 2\<rparr>],
              towers := [towerA\<lparr>t_health := 0, t_destroyed := True\<rparr>, wreck],
              formationTimer := 1\<rparr>"
  have p: "status ?a = PLAYING" by (simp add: lastStand_def)
  have t: "gameLoop quietEnv ?a = Inr ?a'"
    using lastStand_lost by (simp add: gameLoop_def lastStand_def)
  have d: "list_all t_destroyed (towers ?a')" by (simp add: wreck_def)
  from loss_overrides_score[OF p t d] p t d show ?thesis
    by (simp add: lastStand_def initial_def)
qed

subsection \<open>Ammunition\<close>

lemma fire_cases:
  "fire x y newId g = g
   \<or> (\<exists>i < length (towers g). eligible (towers g ! i)
        \<and> towers (fire x y newId g)
            = (towers g)[i := (towers g ! i)\<lparr>t_ammo := t_ammo (towers g ! i) - 1\<rparr>]
        \<and> length (missiles (fire x y newId g)) = length (missiles g) + 1)"
proof (cases "closestTower x (towers g) 0 None")
  case None
  then show ?thesis by (simp add: fire_none)
next
  case (Some jd)
  obtain j d where jd: "jd = (j, d)" by (cases jd)
  with Some have run: "closestTower x (towers g) 0 None = Some (j, d)" by simp
  from closestTower_start(1,2)[OF run] fire_some[OF run, of y newId]
  show ?thesis by auto
qed

lemma handleCanvasClick_cases:
  "handleCanvasClick canvas clientX clientY newId g = g
   \<or> (\<exists>i < length (towers g). eligible (towers g ! i)
        \<and> towers (handleCanvasClick canvas clientX clientY newId g)
            = (towers g)[i := (towers g ! i)\<lparr>t_ammo := t_ammo (towers g ! i) - 1\<rparr>]
        \<and> length (missiles (handleCanvasClick canvas clientX clientY newId g))
            = length (missiles g) + 1)"
proof (cases "status g \<noteq> PLAYING \<or> canvas = None")
  case True
  then show ?thesis by (auto simp: handleCanvasClick_def)
next
  case False
  then obtain cv where "status g = PLAYING" "canvas = Some cv" by auto
  then have "handleCanvasClick canvas clientX clientY newId g
      = fire ((clientX - rect_left cv) * (cv_width cv / rect_width cv))
             ((clientY - rect_top cv) * (cv_height cv / rect_height cv)) newId g"
    by (simp add: handleCanvasClick_def Let_def)
  with fire_cases show ?thesis by simp
qed

lemma ammoSpent_same:
  assumes "map t_id ts' = map t_id ts" and "map t_ammo ts' = map t_ammo ts"
  shows "list_all2 ammoSpent ts ts'"
proof -
  from assms(1) have len: "length ts' = length ts" by (metis length_map)
  have "ammoSpent (ts ! i) (ts' ! i)" if "i < length ts" for i
  proof -
    from that len have "t_id (ts' ! i) = map t_id ts' ! i" "t_ammo (ts' ! i) = map t_ammo ts' ! i"
      "t_id (ts ! i) = map t_id ts ! i" "t_ammo (ts ! i) = map t_ammo ts ! i"
      by simp_all
    with assms show ?thesis by (simp add: ammoSpent_def)
  qed
  with len show ?thesis by (simp add: list_all2_conv_all_nth)
qed

lemma ammoSpent_shot:
  assumes "i < length ts" and "eligible (ts ! i)"
  shows "list_all2 ammoSpent ts (ts[i := (ts ! i)\<lparr>t_ammo := t_ammo (ts ! i) - 1\<rparr>])"
  using assms by (auto simp: list_all2_conv_all_nth nth_list_update ammoSpent_def eligible_def)

lemma ammoSpent_trans:
  "list_all2 ammoSpent xs ys \<Longrightarrow> list_all2 ammoSpent ys zs \<Longrightarrow> list_all2 ammoSpent xs zs"
proof (rule list_all2_trans)
  show "ammoSpent a b \<Longrightarrow> ammoSpent b c \<Longrightarrow> ammoSpent a c" for a b c
    by (auto simp: ammoSpent_def)
qed

lemma step_ammo:
  assumes "step ev g = Inr g'"
  shows "list_all2 ammoSpent (towers g) (towers g')"
proof (cases ev)
  case (Tick env)
  show ?thesis
  proof (cases "status g = PLAYING")
    case True
    with Tick assms have "update env g = Inr g'" by (simp add: gameLoop_def)
    from update_Inr(2,3)[OF this] show ?thesis by (simp add: ammoSpent_same)
  next
    case False
    with Tick assms have "g' = g" by (simp add: gameLoop_def)
    then show ?thesis by (simp add: ammoSpent_same)
  qed
next
  case (Click canvas clientX clientY newId)
  with assms have g': "g' = handleCanvasClick canvas clientX clientY newId g" by simp
  from handleCanvasClick_cases[of canvas clientX clientY newId g] show ?thesis
  proof
    assume "handleCanvasClick canvas clientX clientY newId g = g"
    with g' show ?thesis by (simp add: ammoSpent_same)
  next
    assume "\<exists>i < length (towers g). eligible (towers g ! i)
        \<and> towers (handleCanvasClick canvas clientX clientY newId g)
            = (towers g)[i := (towers g ! i)\<lparr>t_ammo := t_ammo (towers g ! i) - 1\<rparr>]
        \<and> length (missiles (handleCanvasClick canvas clientX clientY newId g))
            = length (missiles g) + 1"
    with g' show ?thesis using ammoSpent_shot by auto
  qed
qed

lemma run_ammo:
  "run evs g = Inr g' \<Longrightarrow> list_all2 ammoSpent (towers g) (towers g')"
proof (induction evs arbitrary: g)
  case Nil
  then show ?case by (simp add: ammoSpent_same)
next
  case (Cons ev evs)
  from Cons.prems obtain g1 where s: "step ev g = Inr g1" and r: "run evs g1 = Inr g'"
    by (auto split: sum.splits)
  from step_ammo[OF s] Cons.IH[OF r] show ?case by (rule ammoSpent_trans)
qed

lemma step_returns:
  assumes "wellFormedEvent ev" and "length (towers g) \<le> length TOWER_POSITIONS"
  shows "\<exists>g'. step ev g = Inr g'"
proof (cases ev)
  case (Tick env)
  with assms update_returns[of env g] show ?thesis by (simp add: gameLoop_def)
next
  case (Click canvas clientX clientY newId)
  then show ?thesis by simp
qed

lemma run_returns:
  "list_all wellFormedEvent evs \<Longrightarrow> length (towers g) \<le> length TOWER_POSITIONS \<Longrightarrow>
   \<exists>g'. run evs g = Inr g'"
proof (induction evs arbitrary: g)
  case Nil
  then show ?case by simp
next
  case (Cons ev evs)
  from Cons.prems have wf: "wellFormedEvent ev" "list_all wellFormedEvent evs" by simp_all
  from step_returns[OF wf(1) Cons.prems(2)] obtain g1 where s: "step ev g = Inr g1" by blast
  from step_ammo[OF s] have "length (towers g1) = length (towers g)"
    by (simp add: list_all2_lengthD)
  with Cons.prems(2) have "length (towers g1) \<le> length TOWER_POSITIONS" by simp
  from Cons.IH[OF wf(2) this] s show ?case by simp
qed

lemma run_append:
  "run (evs1 @ evs2) g = Inr g' \<longleftrightarrow> (\<exists>g1. run evs1 g = Inr g1 \<and> run evs2 g1 = Inr g')"
  by (induction evs1 arbitrary: g) (auto split: sum.splits)

lemma shotThenTick_run:
  "run shotThenTick scenarioA =
     Inr (scenarioA\<lparr>towers := [towerA\<lparr>t_ammo := 299, t_targetY := 540, t_y := 2797 / 5\<rparr>],
                    missiles := [shotA 552], formationTimer := 1\<rparr>)"
proof -
  let ?g0 = "scenarioA\<lparr>towers := [towerA\<lparr>t_ammo := 299\<rparr>], missiles := [shotA 560]\<rparr>"
  let ?g2 = "?g0\<lparr>missiles := [shotA 552]\<rparr>"
  let ?g5 = "?g2\<lparr>formationTimer := 1,
                towers := [towerA\<lparr>t_ammo := 299, t_targetY := 540, t_y := 2797 / 5\<rparr>]\<rparr>"
  have 0: "handleCanvasClick (Some plainCanvas) 40 300 ''m1'' scenarioA = ?g0"
    by (simp add: handleCanvasClick_def plainCanvas_def fire_def scenarioA_def initial_def
          towerA_def shotA_def atan2_def MISSILE_SPEED_def Let_def)
  have 1: "updateRockets quietEnv ?g0 = ?g0"
    by (simp add: scenarioA_def initial_def updateRockets_def)
  have 2: "updateMissiles quietEnv ?g0 = ?g2"
    by (simp add: scenarioA_def initial_def shotA_def missile_defs)
  have 3: "updateExplosions ?g2 = ?g2"
    by (simp add: scenarioA_def initial_def updateExplosions_def)
  have 4: "updatePlayerFormation (checkProgress ?g2) = Inr ?g5"
    by (simp add: scenarioA_def initial_def towerA_def formation_defs)
  have "update quietEnv ?g0 = Inr ?g5"
    by (rule update_quiet[OF 1 2 3 4]) (simp_all add: scenarioA_def initial_def)
  with 0 show ?thesis
    by (simp add: shotThenTick_def gameLoop_def scenarioA_def initial_def)
qed

text \<open>
  C8. Over any sequence of ticks and pointer events within a level that runs to its end,
  between any two moments of it, every tower keeps its identity, has no more ammunition
  than before and, if it was not negative before, is not negative after. Such a sequence
  does run to its end when the draws of \<^verbatim>\<open>Math.random\<close> lie in \<open>[0, 1)\<close> and the store has no
  more towers than the table of positions. A tick leaves every tower's ammunition as it
  is, and a pointer event either changes nothing or takes exactly one round from exactly
  one eligible tower and adds one missile.
\<close>

theorem ammo_never_increases:
  "(run (evs1 @ evs2) g = Inr g' \<longrightarrow>
      (\<exists>g1. run evs1 g = Inr g1 \<and> run evs2 g1 = Inr g'
            \<and> list_all2 ammoSpent (towers g) (towers g1)
            \<and> list_all2 ammoSpent (towers g1) (towers g')))
   \<and> (list_all wellFormedEvent evs \<and> length (towers g) \<le> length TOWER_POSITIONS \<longrightarrow>
         (\<exists>g2. run evs g = Inr g2))
   \<and> (gameLoop env g = Inr g3 \<longrightarrow> map t_ammo (towers g3) = map t_ammo (towers g))
   \<and> (handleCanvasClick canvas clientX clientY newId g = g
        \<or> (\<exists>i < length (towers g). eligible (towers g ! i)
             \<and> towers (handleCanvasClick canvas clientX clientY newId g)
                 = (towers g)[i := (towers g ! i)\<lparr>t_ammo := t_ammo (towers g ! i) - 1\<rparr>]
             \<and> length (missiles (handleCanvasClick canvas clientX clientY newId g))
                 = length (missiles g) + 1))"
proof (intro conjI impI)
  assume "run (evs1 @ evs2) g = Inr g'"
  then obtain g1 where r: "run evs1 g = Inr g1" "run evs2 g1 = Inr g'"
    by (auto simp: run_append)
  with run_ammo[OF r(1)] run_ammo[OF r(2)]
  show "\<exists>g1. run evs1 g = Inr g1 \<and> run evs2 g1 = Inr g'
            \<and> list_all2 ammoSpent (towers g) (towers g1)
            \<and> list_all2 ammoSpent (towers g1) (towers g')"
    by blast
next
  assume "list_all wellFormedEvent evs \<and> length (towers g) \<le> length TOWER_POSITIONS"
  then show "\<exists>g2. run evs g = Inr g2" by (simp add: run_returns)
next
  assume a: "gameLoop env g = Inr g3"
  show "map t_ammo (towers g3) = map t_ammo (towers g)"
  proof (cases "status g = PLAYING")
    case True
    with a have "update env g = Inr g3" by (simp add: gameLoop_def)
    from update_Inr(2)[OF this] show ?thesis .
  next
    case False
    with a show ?thesis by (simp add: gameLoop_def)
  qed
next
  show "handleCanvasClick canvas clientX clientY newId g = g
        \<or> (\<exists>i < length (towers g). eligible (towers g ! i)
             \<and> towers (handleCanvasClick canvas clientX clientY newId g)
                 = (towers g)[i := (towers g ! i)\<lparr>t_ammo := t_ammo (towers g ! i) - 1\<rparr>]
             \<and> length (missiles (handleCanvasClick canvas clientX clientY newId g))
                 = length (missiles g) + 1)"
    by (rule handleCanvasClick_cases)
qed

theorem ammo_never_increases_witness:
  "run shotThenTick scenarioA =
     Inr (scenarioA\<lparr>towers := [towerA\<lparr>t_ammo := 299, t_targetY := 540, t_y := 2797 / 5\<rparr>],
                    missiles := [shotA 552], formationTimer := 1\<rparr>)
   \<and> list_all wellFormedEvent shotThenTick
   \<and> length (towers scenarioA) \<le> length TOWER_POSITIONS
   \<and> run [Click (Some plainCanvas) 40 300 ''m1''] scenarioA
       = Inr (scenarioA\<lparr>towers := [towerA\<lparr>t_ammo := 299\<rparr>], missiles := [shotA 560]\<rparr>)
   \<and> gameLoop quietEnv (scenarioA\<lparr>towers := [towerA\<lparr>t_ammo := 299\<rparr>], missiles := [shotA 560]\<rparr>)
       = Inr (scenarioA\<lparr>towers := [towerA\<lparr>t_ammo := 299, t_targetY := 540, t_y := 2797 / 5\<rparr>],
                    missiles := [shotA 552], formationTimer := 1\<rparr>)
   \<and> map t_ammo (towers scenarioA) = [300]
   \<and> list_all2 ammoSpent (towers scenarioA) [towerA\<lparr>t_ammo := 299\<rparr>]
   \<and> list_all2 ammoSpent [towerA\<lparr>t_ammo := 299\<rparr>]
         [towerA\<lparr>t_ammo := 299, t_targetY := 540, t_y := 2797 / 5\<rparr>]"
proof -
  let ?g1 = "scenarioA\<lparr>towers := [towerA\<lparr>t_ammo := 299\<rparr>], missiles := [shotA 560]\<rparr>"
  let ?g2 = "scenarioA\<lparr>towers := [towerA\<lparr>t_ammo := 299, t_targetY := 540, t_y := 2797 / 5\<rparr>],
                    missiles := [shotA 552], formationTimer := 1\<rparr>"
  have r: "run ([Click (Some plainCanvas) 40 300 ''m1''] @ [Tick quietEnv]) scenarioA = Inr ?g2"
    using shotThenTick_run by (simp add: shotThenTick_def)
  have c: "run [Click (Some plainCanvas) 40 300 ''m1''] scenarioA = Inr ?g1"
    by (simp add: handleCanvasClick_def plainCanvas_def fire_def scenarioA_def initial_def
          towerA_def shotA_def atan2_def MISSILE_SPEED_def Let_def)
  have wf: "list_all wellFormedEvent shotThenTick \<and> length (towers scenarioA) \<le> length TOWER_POSITIONS"
    by (simp add: shotThenTick_def wellFormedEnv_def isRandom_def quietEnv_def scenarioA_def
          TOWER_POSITIONS_def)
  from ammo_never_increases
         [where ?evs1.0 = "[Click (Some plainCanvas) 40 300 ''m1'']" and ?evs2.0 = "[Tick quietEnv]"
            and g = scenarioA and g' = ?g2 and evs = shotThenTick and env = quietEnv
            and ?g3.0 = ?g2 and canvas = None and clientX = 0 and clientY = 0 and newId = "''''"]
       r c wf
  have "list_all2 ammoSpent (towers scenarioA) (towers ?g1)
        \<and> list_all2 ammoSpent (towers ?g1) (towers ?g2)"
    by (auto split: sum.splits)
  moreover have "gameLoop quietEnv ?g1 = Inr ?g2"
    using r c by (auto split: sum.splits)
  ultimately show ?thesis using shotThenTick_run c wf
    by (simp add: scenarioA_def towerA_def)
qed

subsection \<open>Impact of a rocket\<close>























subsection \<open>Removal from a store inside the loop over it\<close>

lemma twinBeam_tick:
  "update quietEnv twinBeam =
     Inr (twinBeam\<lparr>rockets := [fallingRocket ''r2'' 220 461 560],
            missiles := [risingMissile ''m1'' 220 392],
            score := 20, scoreRef := 20,
            towers := [towerA\<lparr>t_targetY := 540, t_y := 2797 / 5\<rparr>],
            formationTimer := 1\<rparr>)"
proof -
  let ?g0 = "twinBeam"
  let ?g1 = "?g0\<lparr>rockets := [fallingRocket ''r1'' 220 451 560, fallingRocket ''r2'' 220 461 560]\<rparr>"
  let ?g2 = "?g1\<lparr>rockets := [fallingRocket ''r2'' 220 461 560],
                missiles := [risingMissile ''m1'' 220 392], scoreRef := 20, score := 20\<rparr>"
  let ?g5 = "?g2\<lparr>formationTimer := 1,
                towers := [towerA\<lparr>t_targetY := 540, t_y := 2797 / 5\<rparr>]\<rparr>"
  have 1: "updateRockets quietEnv ?g0 = ?g1"
    by (simp add: twinBeam_def quietEnv_def initial_def towerA_def fallingRocket_def risingMissile_def rocket_defs)
  have 2: "updateMissiles quietEnv ?g1 = ?g2"
    by (simp add: twinBeam_def quietEnv_def initial_def towerA_def fallingRocket_def risingMissile_def missile_defs)
  have 3: "updateExplosions ?g2 = ?g2"
    by (simp add: twinBeam_def quietEnv_def initial_def towerA_def fallingRocket_def risingMissile_def updateExplosions_def)
  have 4: "updatePlayerFormation (checkProgress ?g2) = Inr ?g5"
    by (simp add: twinBeam_def quietEnv_def initial_def towerA_def fallingRocket_def risingMissile_def formation_defs)
  have "update quietEnv ?g0 = Inr ?g5"
    by (rule update_quiet[OF 1 2 3 4]) (simp_all add: twinBeam_def quietEnv_def initial_def towerA_def fallingRocket_def risingMissile_def)
  then show ?thesis by (simp add: twinBeam_def)
qed

text \<open>
  C4 at one missile and two rockets that both lie on its beam, one behind the other in
  the store. The claim asks for both rockets to be removed and for 40 points. The code
  removes the first rocket and scores 20: the \<^verbatim>\<open>splice\<close> inside the inner \<^verbatim>\<open>forEach\<close> moves
  the second rocket to the index just visited, so it is never tested against the beam. At
  the end of the tick it is still in the store, at distance 0 from the beam.
\<close>

theorem second_rocket_in_beam_skipped:
  "update quietEnv twinBeam =
     Inr (twinBeam\<lparr>rockets := [fallingRocket ''r2'' 220 461 560],
            missiles := [risingMissile ''m1'' 220 392],
            score := 20, scoreRef := 20,
            towers := [towerA\<lparr>t_targetY := 540, t_y := 2797 / 5\<rparr>],
            formationTimer := 1\<rparr>)
   \<and> distToSegment (r_current (fallingRocket ''r2'' 220 461 560))
         (m_start (risingMissile ''m1'' 220 392)) (m_current (risingMissile ''m1'' 220 392)) = 0"
  using twinBeam_tick
  by (simp add: fallingRocket_def risingMissile_def distToSegment_def Let_def)

lemma visits_add:
  "visits (m + n) e = (case visits m e of None \<Rightarrow> None | Some e1 \<Rightarrow> visits n e1)"
  by (induction m arbitrary: e) (auto split: prod.splits)

lemma visits_growing:
  assumes "e_growing e" and "e_maxRadius e = 70" and "e_radius e = 3 / 2 * real k"
    and "k + n \<le> 46"
  shows "visits n e = Some (e\<lparr>e_radius := 3 / 2 * real (k + n)\<rparr>)"
  using assms
proof (induction n arbitrary: e k)
  case 0
  then show ?case by simp
next
  case (Suc n)
  let ?e1 = "e\<lparr>e_radius := 3 / 2 * real (Suc k)\<rparr>"
  from Suc.prems have "real (Suc k) \<le> 46" by linarith
  then have "3 / 2 * real (Suc k) < 70" by simp
  with Suc.prems have g: "growExplosion e = (?e1, False)"
    by (simp add: growExplosion_def EXPLOSION_SPEED_def Let_def algebra_simps)
  from Suc.prems have "visits n ?e1 = Some (?e1\<lparr>e_radius := 3 / 2 * real (Suc k + n)\<rparr>)"
    by (intro Suc.IH) simp_all
  with g show ?case by simp
qed

lemma visits_shrinking:
  assumes "\<not> e_growing e" and "e_radius e = 3 / 2 * real k" and "n < k"
  shows "visits n e = Some (e\<lparr>e_radius := 3 / 2 * real (k - n)\<rparr>)"
  using assms
proof (induction n arbitrary: e k)
  case 0
  then show ?case by simp
next
  case (Suc n)
  then obtain j where k: "k = Suc j" and j: "n < j" by (cases k) auto
  let ?e1 = "e\<lparr>e_radius := 3 / 2 * real j\<rparr>"
  from j have "0 < real j" by simp
  with Suc.prems k have g: "growExplosion e = (?e1, False)"
    by (simp add: growExplosion_def EXPLOSION_SPEED_def Let_def algebra_simps)
  from Suc.prems j have "visits n ?e1 = Some (?e1\<lparr>e_radius := 3 / 2 * real (j - n)\<rparr>)"
    by (intro Suc.IH) simp_all
  with g k show ?case by simp
qed

lemma visits_last:
  assumes "\<not> e_growing e" and "e_radius e = 3 / 2"
  shows "visits (Suc n) e = None"
  using assms by (simp add: growExplosion_def EXPLOSION_SPEED_def Let_def)

text \<open>
  A blast that the loop visits in every tick lives as the specification says: from
  radius 0 it grows by \<open>3/2\<close> per visit up to \<open>69\<close> at visit 46, turns at visit 47 with
  radius \<open>70.5\<close>, shrinks by \<open>3/2\<close> per visit and is removed by visit 94.
\<close>

lemma visits_newExplosion:
  "visits n (newExplosion i x y) =
     (if n \<le> 46 then Some ((newExplosion i x y)\<lparr>e_radius := 3 / 2 * real n\<rparr>)
      else if n \<le> 93 then
        Some ((newExplosion i x y)\<lparr>e_radius := 3 / 2 * real (94 - n), e_growing := False\<rparr>)
      else None)"
proof -
  let ?e = "newExplosion i x y"
  let ?top = "?e\<lparr>e_radius := 3 / 2 * real (47 :: nat), e_growing := False\<rparr>"
  have grow: "visits m ?e = Some (?e\<lparr>e_radius := 3 / 2 * real m\<rparr>)" if "m \<le> 46" for m
    using visits_growing[of ?e 0 m] that
    by (simp add: newExplosion_def EXPLOSION_MAX_RADIUS_def)
  have "visits (46 + 1) ?e = Some ?top"
    unfolding visits_add grow[of 46, simplified]
    by (simp add: newExplosion_def EXPLOSION_MAX_RADIUS_def growExplosion_def
          EXPLOSION_SPEED_def Let_def)
  then have top: "visits 47 ?e = Some ?top" by simp
  have shrink: "visits (47 + m) ?e = Some (?top\<lparr>e_radius := 3 / 2 * real (47 - m)\<rparr>)"
    if "m < 47" for m
    unfolding visits_add top using visits_shrinking[of ?top 47 m] that by simp
  have gone: "visits (93 + Suc m) ?e = None" for m
  proof -
    have "visits (47 + 46) ?e = Some (?top\<lparr>e_radius := 3 / 2 * real (47 - 46 :: nat)\<rparr>)"
      by (rule shrink) simp
    then have "visits 93 ?e = Some (?top\<lparr>e_radius := 3 / 2\<rparr>)" by simp
    then show ?thesis
      unfolding visits_add using visits_last[of "?top\<lparr>e_radius := 3 / 2\<rparr>" m] by simp
  qed
  consider "n \<le> 46" | m where "n = 47 + m" "m < 47" | m where "n = 93 + Suc m"
    by (cases "n \<le> 46"; cases "n \<le> 93") (auto intro: that(2)[of "n - 47"] that(3)[of "n - 94"])
  then show ?thesis
  proof cases
    case 1
    then show ?thesis by (simp add: grow)
  next
    case 2
    then show ?thesis using shrink[of m] by simp
  next
    case 3
    then show ?thesis using gone[of m] by simp
  qed
qed

lemma blastHandover_tick:
  "update quietEnv blastHandover =
     Inr (blastHandover\<lparr>rockets := [],
            explosions := [newExplosion ''blast'' 110 (1141 / 2)],
            cities := [(cityAt 0 110)\<lparr>c_health := 1\<rparr>],
            towers := [towerA\<lparr>t_targetY := 540, t_y := 2797 / 5\<rparr>],
            formationTimer := 1\<rparr>)"
proof -
  let ?g0 = "blastHandover"
  let ?g1 = "?g0\<lparr>rockets := [],
                explosions := [dyingBlast, newExplosion ''blast'' 110 (1141 / 2)],
                cities := [(cityAt 0 110)\<lparr>c_health := 1\<rparr>]\<rparr>"
  let ?g3 = "?g1\<lparr>explosions := [newExplosion ''blast'' 110 (1141 / 2)]\<rparr>"
  let ?g5 = "?g3\<lparr>formationTimer := 1,
                towers := [towerA\<lparr>t_targetY := 540, t_y := 2797 / 5\<rparr>]\<rparr>"
  have 1: "updateRockets quietEnv ?g0 = ?g1"
    by (simp add: blastHandover_def dyingBlast_def cityAt_def initCity_def quietEnv_def initial_def towerA_def fallingRocket_def rocket_defs)
  have 2: "updateMissiles quietEnv ?g1 = ?g1"
    by (simp add: blastHandover_def dyingBlast_def cityAt_def initCity_def quietEnv_def initial_def towerA_def fallingRocket_def updateMissiles_def)
  have 3: "updateExplosions ?g1 = ?g3"
    by (simp add: blastHandover_def dyingBlast_def cityAt_def initCity_def quietEnv_def initial_def towerA_def fallingRocket_def explosion_defs)
  have 4: "updatePlayerFormation (checkProgress ?g3) = Inr ?g5"
    by (simp add: blastHandover_def dyingBlast_def cityAt_def initCity_def quietEnv_def initial_def towerA_def fallingRocket_def formation_defs)
  have "update quietEnv ?g0 = Inr ?g5"
    by (rule update_quiet[OF 1 2 3 4]) (simp_all add: blastHandover_def dyingBlast_def cityAt_def initCity_def quietEnv_def initial_def towerA_def fallingRocket_def)
  then show ?thesis by (simp add: blastHandover_def)
qed

lemma updateExplosions_single:
  assumes "explosions g = [e]" and "rockets g = []" and "planes g = []"
  shows "explosions (updateExplosions g) = (case visits 1 e of None \<Rightarrow> [] | Some e1 \<Rightarrow> [e1])"
  using assms
  by (simp add: updateExplosions_def explosionStep_def splice1_def Let_def split: prod.splits)

text \<open>
  C6 at a blast that is created in a tick in which the blast before it in the store
  expires. The claim asks for radius \<open>3/2\<close> after the blast's first tick (as \<open>visits 1\<close>
  gives), and for a life of 94 ticks. The code removes the old blast with \<^verbatim>\<open>splice\<close> inside
  \<^verbatim>\<open>forEach\<close>, the new blast moves to the index just visited and the loop does not call
  the callback on it: it ends the tick with radius 0, and every later step of its life
  comes one tick late.
\<close>

theorem blast_behind_expiring_blast_skipped:
  "update quietEnv blastHandover =
     Inr (blastHandover\<lparr>rockets := [],
            explosions := [newExplosion ''blast'' 110 (1141 / 2)],
            cities := [(cityAt 0 110)\<lparr>c_health := 1\<rparr>],
            towers := [towerA\<lparr>t_targetY := 540, t_y := 2797 / 5\<rparr>],
            formationTimer := 1\<rparr>)
   \<and> e_radius (newExplosion ''blast'' 110 (1141 / 2)) = 0
   \<and> visits 1 (newExplosion ''blast'' 110 (1141 / 2))
       = Some ((newExplosion ''blast'' 110 (1141 / 2))\<lparr>e_radius := 3 / 2\<rparr>)"
  using blastHandover_tick visits_newExplosion [of 1 "''blast''" 110 "1141 / 2"]
  by (simp add: newExplosion_def)

end
